theory Spec2Isabelle
  imports Main "HOL-Library.Word"
begin

section \<open>The AnonymousMentalHealth contract\<close>

text \<open>
  A shallow embedding of the Solidity contract \<^verbatim>\<open>AnonymousMentalHealth\<close>
  (the second document of \<^verbatim>\<open>base-template/scripts/deploy.ts\<close>).

  Solidity value types are words of their width. Arithmetic is the checked arithmetic of
  Solidity 0.8: an overflow does not wrap, it aborts the call with \<^verbatim>\<open>Panic(0x11)\<close>.
\<close>

type_synonym address = "160 word"
type_synonym uint8 = "8 word"
type_synonym uint16 = "16 word"
type_synonym uint256 = "256 word"

subsection \<open>The encryption library, as far as the contract uses it\<close>

text \<open>
  \<^verbatim>\<open>FHE.asEuint8\<close> belongs to the external library \<^verbatim>\<open>@fhevm/solidity\<close>. The contract
  only stores the handles it returns and passes them to \<^verbatim>\<open>FHE.allow\<close> and
  \<^verbatim>\<open>FHE.allowThis\<close>. A handle is opaque: either the zero handle of a storage slot that
  was never written, or the handle of a trivially encrypted plaintext. The access-control
  list of the library is a set of (handle, grantee) pairs.
\<close>

datatype euint8 = ZeroHandle | Encrypted uint8

datatype grantee = ThisContract | Account address

definition asEuint8 :: "uint8 \<Rightarrow> euint8" where
  "asEuint8 v = Encrypted v"

subsection \<open>Storage layout\<close>

record PatientProfile =
  anxietyLevel :: euint8
  depressionLevel :: euint8
  stressLevel :: euint8
  isActive :: bool
  registrationTime :: uint256

record CounselingSession =
  sessionType :: euint8
  severityLevel :: euint8
  sessionActive :: bool
  sessionCompleted :: bool
  patient :: address
  startTime :: uint256
  endTime :: uint256
  improvementScore :: euint8

record TherapyPlan =
  recommendedSessions :: euint8
  priorityLevel :: euint8
  planActive :: bool
  createdTime :: uint256

text \<open>
  A Solidity mapping is total: a key that was never written reads as the zero value of
  the value type. So the mappings are total functions, and the zero values are named.
\<close>

definition zero_profile :: PatientProfile where
  "zero_profile = \<lparr>anxietyLevel = ZeroHandle, depressionLevel = ZeroHandle,
     stressLevel = ZeroHandle, isActive = False, registrationTime = 0\<rparr>"

definition zero_session :: CounselingSession where
  "zero_session = \<lparr>sessionType = ZeroHandle, severityLevel = ZeroHandle,
     sessionActive = False, sessionCompleted = False, patient = 0,
     startTime = 0, endTime = 0, improvementScore = ZeroHandle\<rparr>"

definition zero_plan :: TherapyPlan where
  "zero_plan = \<lparr>recommendedSessions = ZeroHandle, priorityLevel = ZeroHandle,
     planActive = False, createdTime = 0\<rparr>"

record contract =
  counselor :: address
  currentSessionId :: uint16
  lastSessionTime :: uint256
  patientProfiles :: "address \<Rightarrow> PatientProfile"
  sessions :: "uint16 \<Rightarrow> CounselingSession"
  therapyPlans :: "address \<Rightarrow> TherapyPlan"
  patientSessions :: "address \<Rightarrow> uint16 list"
  acl :: "(euint8 \<times> grantee) set"

text \<open>The part of the call context the contract reads: \<^verbatim>\<open>msg.sender\<close> and
  \<^verbatim>\<open>block.timestamp\<close>.\<close>

record env =
  sender :: address
  timestamp :: uint256

datatype event =
    PatientRegistered address uint256
  | SessionStarted uint16 address uint256
  | SessionCompleted uint16 address uint256
  | TherapyPlanCreated address uint256
  | EmergencyAlert address uint256

text \<open>
  One constructor for each \<^verbatim>\<open>require\<close> message of the contract, and one for each
  panic: the arithmetic overflow and the array index out of bounds.
\<close>

datatype revert_reason =
    Not_authorized_counselor         \<comment> \<open>"Not authorized counselor"\<close>
  | Patient_not_registered           \<comment> \<open>"Patient not registered"\<close>
  | No_session_slots_available       \<comment> \<open>"No session slots available"\<close>
  | Levels_must_be_0_10              \<comment> \<open>"Levels must be 0-10"\<close>
  | Patient_already_registered       \<comment> \<open>"Patient already registered"\<close>
  | Invalid_session_type             \<comment> \<open>"Invalid session type"\<close>
  | Severity_must_be_1_10            \<comment> \<open>"Severity must be 1-10"\<close>
  | Improvement_score_must_be_0_10   \<comment> \<open>"Improvement score must be 0-10"\<close>
  | Not_authorized                   \<comment> \<open>"Not authorized"\<close>
  | Session_not_active               \<comment> \<open>"Session not active"\<close>
  | Session_already_completed        \<comment> \<open>"Session already completed"\<close>
  | Sessions_must_be_1_20            \<comment> \<open>"Sessions must be 1-20"\<close>
  | Priority_must_be_1_4             \<comment> \<open>"Priority must be 1-4"\<close>
  | Panic_overflow                   \<comment> \<open>Panic(0x11)\<close>
  | Panic_out_of_bounds              \<comment> \<open>Panic(0x32)\<close>

text \<open>
  The error names of the specification, and the name each message of the contract falls
  under. No message of the contract falls under \<open>SessionNotFound\<close>; the panics have no
  name in the specification.
\<close>

datatype spec_error =
    AlreadyRegistered | NotRegistered | OutOfRange | InvalidSessionType | NoSlotAvailable
  | SessionNotFound | SessionNotActive | AlreadyCompleted | Unauthorized

fun taxonomy :: "revert_reason \<Rightarrow> spec_error option" where
  "taxonomy Not_authorized_counselor = Some Unauthorized"
| "taxonomy Patient_not_registered = Some NotRegistered"
| "taxonomy No_session_slots_available = Some NoSlotAvailable"
| "taxonomy Levels_must_be_0_10 = Some OutOfRange"
| "taxonomy Patient_already_registered = Some AlreadyRegistered"
| "taxonomy Invalid_session_type = Some InvalidSessionType"
| "taxonomy Severity_must_be_1_10 = Some OutOfRange"
| "taxonomy Improvement_score_must_be_0_10 = Some OutOfRange"
| "taxonomy Not_authorized = Some Unauthorized"
| "taxonomy Session_not_active = Some SessionNotActive"
| "taxonomy Session_already_completed = Some AlreadyCompleted"
| "taxonomy Sessions_must_be_1_20 = Some OutOfRange"
| "taxonomy Priority_must_be_1_4 = Some OutOfRange"
| "taxonomy Panic_overflow = None"
| "taxonomy Panic_out_of_bounds = None"

subsection \<open>Constants, modifiers and helpers\<close>

definition SESSION_DURATION :: uint256 where
  "SESSION_DURATION = 3600"

definition BREAK_DURATION :: uint256 where
  "BREAK_DURATION = 1800"

text \<open>Checked addition on \<^verbatim>\<open>uint256\<close>.\<close>

definition checked_add :: "uint256 \<Rightarrow> uint256 \<Rightarrow> revert_reason + uint256" where
  "checked_add a b = (if unat a + unat b < 2 ^ 256 then Inr (a + b) else Inl Panic_overflow)"

text \<open>\<^verbatim>\<open>FHE.allowThis(h)\<close> is the grant \<open>(h, ThisContract)\<close>, \<^verbatim>\<open>FHE.allow(h, a)\<close> the
  grant \<open>(h, Account a)\<close>; a run of grants is added to the access-control list in one step.\<close>

definition grant :: "(euint8 \<times> grantee) list \<Rightarrow> contract \<Rightarrow> contract" where
  "grant gs s = s\<lparr>acl := acl s \<union> set gs\<rparr>"

definition constructor :: "env \<Rightarrow> contract" where
  "constructor e = \<lparr>counselor = sender e, currentSessionId = 1,
     lastSessionTime = timestamp e,
     patientProfiles = (\<lambda>_. zero_profile), sessions = (\<lambda>_. zero_session),
     therapyPlans = (\<lambda>_. zero_plan), patientSessions = (\<lambda>_. []), acl = {}\<rparr>"

definition isSessionTimeAvailable :: "env \<Rightarrow> contract \<Rightarrow> revert_reason + bool" where
  "isSessionTimeAvailable e s =
     (case checked_add (lastSessionTime s) BREAK_DURATION of
        Inl r \<Rightarrow> Inl r
      | Inr t \<Rightarrow> Inr (t \<le> timestamp e))"

text \<open>
  The body of a function ends in a revert or returns. For a revert it gives the reason
  and the storage as the body had written it by then; for a return, the new storage and
  the events emitted, in the order of emission.
\<close>

type_synonym body = "revert_reason \<times> contract + contract \<times> event list"

definition onlyCounselor ::
  "env \<Rightarrow> contract \<Rightarrow> body \<Rightarrow> body" where
  "onlyCounselor e s body =
     (if sender e = counselor s then body else Inl (Not_authorized_counselor, s))"

definition onlyRegisteredPatient ::
  "env \<Rightarrow> contract \<Rightarrow> body \<Rightarrow> body" where
  "onlyRegisteredPatient e s body =
     (if isActive (patientProfiles s (sender e)) then body else Inl (Patient_not_registered, s))"

definition sessionAvailable ::
  "env \<Rightarrow> contract \<Rightarrow> body \<Rightarrow> body" where
  "sessionAvailable e s body =
     (case isSessionTimeAvailable e s of
        Inl r \<Rightarrow> Inl (r, s)
      | Inr ok \<Rightarrow> if ok then body else Inl (No_session_slots_available, s))"

text \<open>\<^verbatim>\<open>_checkEmergencyLevel\<close>: the events it emits.\<close>

definition checkEmergencyLevel :: "env \<Rightarrow> uint8 \<Rightarrow> uint8 \<Rightarrow> uint8 \<Rightarrow> event list" where
  "checkEmergencyLevel e anxiety depression stress =
     (if 9 \<le> anxiety \<or> 9 \<le> depression \<or> 9 \<le> stress \<or>
         (7 \<le> anxiety \<and> 7 \<le> depression \<and> 7 \<le> stress)
      then [EmergencyAlert (sender e) (timestamp e)] else [])"

subsection \<open>The state-changing functions\<close>

definition registerPatient :: "env \<Rightarrow> uint8 \<Rightarrow> uint8 \<Rightarrow> uint8 \<Rightarrow> contract \<Rightarrow> body" where
  "registerPatient e anxiety depression stress s =
     (if \<not> (anxiety \<le> 10 \<and> depression \<le> 10 \<and> stress \<le> 10) then Inl (Levels_must_be_0_10, s)
      else if isActive (patientProfiles s (sender e)) then Inl (Patient_already_registered, s)
      else
        let encryptedAnxiety = asEuint8 anxiety;
            encryptedDepression = asEuint8 depression;
            encryptedStress = asEuint8 stress;
            s1 = s\<lparr>patientProfiles := (patientProfiles s)(sender e :=
                   \<lparr>anxietyLevel = encryptedAnxiety,
                    depressionLevel = encryptedDepression,
                    stressLevel = encryptedStress,
                    isActive = True,
                    registrationTime = timestamp e\<rparr>)\<rparr>;
            s2 = grant [(encryptedAnxiety, ThisContract),
                        (encryptedDepression, ThisContract),
                        (encryptedStress, ThisContract),
                        (encryptedAnxiety, Account (sender e)),
                        (encryptedDepression, Account (sender e)),
                        (encryptedStress, Account (sender e)),
                        (encryptedAnxiety, Account (counselor s1)),
                        (encryptedDepression, Account (counselor s1)),
                        (encryptedStress, Account (counselor s1))] s1
        in Inr (s2, checkEmergencyLevel e anxiety depression stress
                      @ [PatientRegistered (sender e) (timestamp e)]))"

definition startCounselingSession :: "env \<Rightarrow> uint8 \<Rightarrow> uint8 \<Rightarrow> contract \<Rightarrow> body" where
  "startCounselingSession e sessionType' severityLevel' s =
     onlyRegisteredPatient e s (sessionAvailable e s
      (if \<not> (1 \<le> sessionType' \<and> sessionType' \<le> 4) then Inl (Invalid_session_type, s)
       else if \<not> (1 \<le> severityLevel' \<and> severityLevel' \<le> 10) then Inl (Severity_must_be_1_10, s)
       else
         let encryptedType = asEuint8 sessionType';
             encryptedSeverity = asEuint8 severityLevel';
             s1 = s\<lparr>sessions := (sessions s)(currentSessionId s :=
                    \<lparr>sessionType = encryptedType,
                     severityLevel = encryptedSeverity,
                     sessionActive = True,
                     sessionCompleted = False,
                     patient = sender e,
                     startTime = timestamp e,
                     endTime = 0,
                     improvementScore = asEuint8 0\<rparr>)\<rparr>;
             s2 = s1\<lparr>patientSessions := (patientSessions s1)(sender e :=
                    patientSessions s1 (sender e) @ [currentSessionId s1])\<rparr>;
             s3 = grant [(encryptedType, ThisContract),
                         (encryptedSeverity, ThisContract),
                         (encryptedType, Account (counselor s2)),
                         (encryptedSeverity, Account (counselor s2))] s2;
             evs = [SessionStarted (currentSessionId s3) (sender e) (timestamp e)]
         in if currentSessionId s3 = 65535 then Inl (Panic_overflow, s3)
            else Inr (s3\<lparr>currentSessionId := currentSessionId s3 + 1,
                        lastSessionTime := timestamp e\<rparr>, evs)))"

definition completeSession :: "env \<Rightarrow> uint16 \<Rightarrow> uint8 \<Rightarrow> contract \<Rightarrow> body" where
  "completeSession e sessionId improvementScore' s =
     (if \<not> improvementScore' \<le> 10 then Inl (Improvement_score_must_be_0_10, s)
      else
        let session = sessions s sessionId in
        if \<not> (patient session = sender e \<or> sender e = counselor s) then Inl (Not_authorized, s)
        else if \<not> sessionActive session then Inl (Session_not_active, s)
        else if \<not> \<not> sessionCompleted session then Inl (Session_already_completed, s)
        else
          let encryptedImprovement = asEuint8 improvementScore';
              session' = session\<lparr>improvementScore := encryptedImprovement,
                                 sessionActive := False,
                                 sessionCompleted := True,
                                 endTime := timestamp e\<rparr>;
              s1 = s\<lparr>sessions := (sessions s)(sessionId := session')\<rparr>;
              s2 = grant [(encryptedImprovement, ThisContract),
                          (encryptedImprovement, Account (patient session')),
                          (encryptedImprovement, Account (counselor s1))] s1
          in Inr (s2, [SessionCompleted sessionId (patient session') (timestamp e)]))"

definition createTherapyPlan :: "env \<Rightarrow> address \<Rightarrow> uint8 \<Rightarrow> uint8 \<Rightarrow> contract \<Rightarrow> body" where
  "createTherapyPlan e patient' recommendedSessions' priorityLevel' s =
     onlyCounselor e s
      (if \<not> isActive (patientProfiles s patient') then Inl (Patient_not_registered, s)
       else if \<not> (0 < recommendedSessions' \<and> recommendedSessions' \<le> 20)
         then Inl (Sessions_must_be_1_20, s)
       else if \<not> (1 \<le> priorityLevel' \<and> priorityLevel' \<le> 4) then Inl (Priority_must_be_1_4, s)
       else
         let encryptedSessions = asEuint8 recommendedSessions';
             encryptedPriority = asEuint8 priorityLevel';
             s1 = s\<lparr>therapyPlans := (therapyPlans s)(patient' :=
                    \<lparr>recommendedSessions = encryptedSessions,
                     priorityLevel = encryptedPriority,
                     planActive = True,
                     createdTime = timestamp e\<rparr>)\<rparr>;
             s2 = grant [(encryptedSessions, ThisContract),
                         (encryptedPriority, ThisContract),
                         (encryptedSessions, Account patient'),
                         (encryptedPriority, Account patient')] s1
         in Inr (s2, [TherapyPlanCreated patient' (timestamp e)]))"

definition updateMentalHealthLevels ::
  "env \<Rightarrow> uint8 \<Rightarrow> uint8 \<Rightarrow> uint8 \<Rightarrow> contract \<Rightarrow> body" where
  "updateMentalHealthLevels e anxiety depression stress s =
     onlyRegisteredPatient e s
      (if \<not> (anxiety \<le> 10 \<and> depression \<le> 10 \<and> stress \<le> 10) then Inl (Levels_must_be_0_10, s)
       else
         let newAnxiety = asEuint8 anxiety;
             newDepression = asEuint8 depression;
             newStress = asEuint8 stress;
             profile = (patientProfiles s (sender e))
                         \<lparr>anxietyLevel := newAnxiety,
                          depressionLevel := newDepression,
                          stressLevel := newStress\<rparr>;
             s1 = s\<lparr>patientProfiles := (patientProfiles s)(sender e := profile)\<rparr>;
             s2 = grant [(newAnxiety, ThisContract),
                         (newDepression, ThisContract),
                         (newStress, ThisContract),
                         (newAnxiety, Account (sender e)),
                         (newDepression, Account (sender e)),
                         (newStress, Account (sender e)),
                         (newAnxiety, Account (counselor s1)),
                         (newDepression, Account (counselor s1)),
                         (newStress, Account (counselor s1))] s1
         in Inr (s2, checkEmergencyLevel e anxiety depression stress))"

subsection \<open>The view functions\<close>

definition getSessionAvailability ::
  "env \<Rightarrow> contract \<Rightarrow> revert_reason + bool \<times> uint256 \<times> uint256" where
  "getSessionAvailability e s =
     (case isSessionTimeAvailable e s of
        Inl r \<Rightarrow> Inl r
      | Inr isAvailable \<Rightarrow>
          if isAvailable then Inr (isAvailable, timestamp e, timestamp e)
          else (case checked_add (lastSessionTime s) BREAK_DURATION of
                  Inl r \<Rightarrow> Inl r
                | Inr nextTime \<Rightarrow> Inr (isAvailable, nextTime, timestamp e)))"

definition getPatientSessionCount :: "contract \<Rightarrow> address \<Rightarrow> nat" where
  "getPatientSessionCount s patient' = length (patientSessions s patient')"

definition getSessionInfo ::
  "contract \<Rightarrow> uint16 \<Rightarrow> bool \<times> bool \<times> uint256 \<times> uint256 \<times> address" where
  "getSessionInfo s sessionId =
     (let session = sessions s sessionId
      in (sessionActive session, sessionCompleted session,
          startTime session, endTime session, patient session))"

definition getSessionStats :: "contract \<Rightarrow> revert_reason + uint16 \<times> uint256 \<times> uint256" where
  "getSessionStats s =
     (if currentSessionId s < 1 then Inl Panic_overflow
      else Inr (currentSessionId s, ucast (currentSessionId s - 1), lastSessionTime s))"

definition isPatientRegistered :: "contract \<Rightarrow> address \<Rightarrow> bool" where
  "isPatientRegistered s patient' = isActive (patientProfiles s patient')"

definition getTherapyPlanStatus :: "contract \<Rightarrow> address \<Rightarrow> bool \<times> uint256" where
  "getTherapyPlanStatus s patient' =
     (let plan = therapyPlans s patient' in (planActive plan, createdTime plan))"

text \<open>
  The state variables are \<^verbatim>\<open>public\<close>, so each has a getter of its own name. The getters
  of \<^verbatim>\<open>counselor\<close>, \<^verbatim>\<open>currentSessionId\<close> and \<^verbatim>\<open>lastSessionTime\<close> read the field; the
  getters of the mappings \<^verbatim>\<open>patientProfiles\<close>, \<^verbatim>\<open>sessions\<close> and \<^verbatim>\<open>therapyPlans\<close> read
  the mapping at the key and return the members of the struct: these are the fields of
  \<open>contract\<close> themselves. The getter \<^verbatim>\<open>patientSessions(address, uint256)\<close> indexes the
  array stored at the key, and an index past the end of the array panics.
\<close>

definition patientSessions_at :: "contract \<Rightarrow> address \<Rightarrow> uint256 \<Rightarrow> revert_reason + uint16" where
  "patientSessions_at s patient' index =
     (if unat index < length (patientSessions s patient')
      then Inr (patientSessions s patient' ! unat index)
      else Inl Panic_out_of_bounds)"

subsection \<open>Transactions\<close>

text \<open>
  A call either succeeds, and its storage writes and events take effect, or reverts, and
  the EVM restores the storage the call started from and drops what the body had
  written: this matters for \<^verbatim>\<open>startCounselingSession\<close>, whose writes to
  \<^verbatim>\<open>sessions\<close> and \<^verbatim>\<open>patientSessions\<close> precede the overflow check of
  \<^verbatim>\<open>currentSessionId++\<close>.
\<close>

datatype outcome = Success "event list" | Reverted revert_reason

definition transact :: "body \<Rightarrow> contract \<Rightarrow> outcome \<times> contract" where
  "transact b s =
     (case b of Inl (r, written) \<Rightarrow> (Reverted r, s) | Inr (s', evs) \<Rightarrow> (Success evs, s'))"

datatype call =
    RegisterPatient uint8 uint8 uint8
  | StartCounselingSession uint8 uint8
  | CompleteSession uint16 uint8
  | CreateTherapyPlan address uint8 uint8
  | UpdateMentalHealthLevels uint8 uint8 uint8

fun body_of :: "env \<Rightarrow> call \<Rightarrow> contract \<Rightarrow> body" where
  "body_of e (RegisterPatient a d t) s = registerPatient e a d t s"
| "body_of e (StartCounselingSession ty sev) s = startCounselingSession e ty sev s"
| "body_of e (CompleteSession i sc) s = completeSession e i sc s"
| "body_of e (CreateTherapyPlan p n pr) s = createTherapyPlan e p n pr s"
| "body_of e (UpdateMentalHealthLevels a d t) s = updateMentalHealthLevels e a d t s"

definition exec :: "env \<Rightarrow> call \<Rightarrow> contract \<Rightarrow> outcome \<times> contract" where
  "exec e c s = transact (body_of e c s) s"

text \<open>A history is a list of calls, each with its context; \<open>run\<close> gives the storage
  after it, \<open>outcomes\<close> the outcome of each call.\<close>

fun run :: "contract \<Rightarrow> (env \<times> call) list \<Rightarrow> contract" where
  "run s [] = s"
| "run s ((e, c) # txs) = run (snd (exec e c s)) txs"

fun outcomes :: "contract \<Rightarrow> (env \<times> call) list \<Rightarrow> outcome list" where
  "outcomes s [] = []"
| "outcomes s ((e, c) # txs) = fst (exec e c s) # outcomes (snd (exec e c s)) txs"

text \<open>The calls that succeeded, in order, and the events they emitted.\<close>

fun succeeded :: "contract \<Rightarrow> (env \<times> call) list \<Rightarrow> (env \<times> call) list" where
  "succeeded s [] = []"
| "succeeded s ((e, c) # txs) =
     (case fst (exec e c s) of
        Success evs \<Rightarrow> (e, c) # succeeded (snd (exec e c s)) txs
      | Reverted r \<Rightarrow> succeeded (snd (exec e c s)) txs)"

fun events_of :: "outcome \<Rightarrow> event list" where
  "events_of (Success evs) = evs"
| "events_of (Reverted r) = []"

definition event_log :: "contract \<Rightarrow> (env \<times> call) list \<Rightarrow> event list" where
  "event_log s txs = concat (map events_of (outcomes s txs))"

subsection \<open>A concrete deployment\<close>

text \<open>
  The accounts of the test suite: the counselor deploys the contract, here at time 1000;
  \<open>patient1\<close> and \<open>patient2\<close> are two further accounts.
\<close>

definition counselor0 :: address where
  "counselor0 = 1"

definition patient1 :: address where
  "patient1 = 2"

definition patient2 :: address where
  "patient2 = 3"

definition at :: "address \<Rightarrow> uint256 \<Rightarrow> env" where
  "at a t = \<lparr>sender = a, timestamp = t\<rparr>"

definition deployed :: contract where
  "deployed = constructor (at counselor0 1000)"

text \<open>\<open>patient1\<close> has registered with the levels (7, 5, 6), in the block of the
  deployment.\<close>

definition registered :: contract where
  "registered = run deployed [(at patient1 1000, RegisterPatient 7 5 6)]"

text \<open>
  A long history: \<open>patient1\<close> registers and then starts one session every 1800 seconds.
  After 65534 sessions the counter \<open>currentSessionId\<close> holds the largest
  \<^verbatim>\<open>uint16\<close>.
\<close>

definition booking :: "nat \<Rightarrow> env \<times> call" where
  "booking k = (at patient1 (of_nat (1000 + 1800 * Suc k)), StartCounselingSession 1 8)"

definition bookings :: "nat \<Rightarrow> (env \<times> call) list" where
  "bookings n = (at patient1 1000, RegisterPatient 7 5 6) # map booking [0..<n]"

definition fully_booked :: contract where
  "fully_booked = run deployed (bookings 65534)"

text \<open>The largest \<^verbatim>\<open>uint256\<close>, and a contract deployed at that block time, on which
  \<open>patient1\<close> has registered.\<close>

definition uint256_max :: uint256 where
  "uint256_max = 115792089237316195423570985008687907853269984665640564039457584007913129639935"

definition deployed_late :: contract where
  "deployed_late =
     run (constructor (at counselor0 uint256_max))
       [(at patient1 uint256_max, RegisterPatient 7 5 6)]"

text \<open>A short history: \<open>patient1\<close> registers, starts session 1 when the deployment is
  1800 seconds old, and completes it.\<close>

definition one_session :: "(env \<times> call) list" where
  "one_session =
     [(at patient1 1000, RegisterPatient 7 5 6),
      (at patient1 2800, StartCounselingSession 1 8),
      (at patient1 2900, CompleteSession 1 7)]"

text \<open>Two more histories. In the first, the second of three starts falls into the break.
  In the second, the counselor gives \<open>patient1\<close> a plan.\<close>

definition two_sessions :: "(env \<times> call) list" where
  "two_sessions =
     [(at patient1 1000, RegisterPatient 7 5 6),
      (at patient1 2800, StartCounselingSession 1 8),
      (at patient1 2900, StartCounselingSession 1 8),
      (at patient1 4600, StartCounselingSession 2 6)]"

definition planned_session :: "(env \<times> call) list" where
  "planned_session =
     [(at patient1 1000, RegisterPatient 7 5 6),
      (at patient1 2800, StartCounselingSession 1 8),
      (at counselor0 2800, CreateTherapyPlan patient1 12 4)]"

subsection \<open>Reading a history\<close>

fun is_success :: "outcome \<Rightarrow> bool" where
  "is_success (Success evs) = True"
| "is_success (Reverted r) = False"

text \<open>The session ids handed out: those of the \<open>SessionStarted\<close> events, in order.\<close>

fun started_id :: "event \<Rightarrow> uint16 list" where
  "started_id (SessionStarted i p t) = [i]"
| "started_id (PatientRegistered p t) = []"
| "started_id (SessionCompleted i p t) = []"
| "started_id (TherapyPlanCreated p t) = []"
| "started_id (EmergencyAlert p t) = []"

definition assigned_ids :: "contract \<Rightarrow> (env \<times> call) list \<Rightarrow> uint16 list" where
  "assigned_ids s txs = concat (map started_id (event_log s txs))"

text \<open>The ids handed out to one patient, and the times of the successful starts, read
  off the same events.\<close>

fun started_by :: "address \<Rightarrow> event \<Rightarrow> uint16 list" where
  "started_by a (SessionStarted i p t) = (if p = a then [i] else [])"
| "started_by a (PatientRegistered p t) = []"
| "started_by a (SessionCompleted i p t) = []"
| "started_by a (TherapyPlanCreated p t) = []"
| "started_by a (EmergencyAlert p t) = []"

definition sessions_started_by ::
  "address \<Rightarrow> contract \<Rightarrow> (env \<times> call) list \<Rightarrow> uint16 list" where
  "sessions_started_by a s txs = concat (map (started_by a) (event_log s txs))"

fun started_time :: "event \<Rightarrow> uint256 list" where
  "started_time (SessionStarted i p t) = [t]"
| "started_time (PatientRegistered p t) = []"
| "started_time (SessionCompleted i p t) = []"
| "started_time (TherapyPlanCreated p t) = []"
| "started_time (EmergencyAlert p t) = []"

definition start_times :: "contract \<Rightarrow> (env \<times> call) list \<Rightarrow> uint256 list" where
  "start_times s txs = concat (map started_time (event_log s txs))"

text \<open>Successive times that are at least \<open>BREAK_DURATION\<close> apart.\<close>

fun spaced :: "uint256 list \<Rightarrow> bool" where
  "spaced [] = True"
| "spaced [t] = True"
| "spaced (t1 # t2 # ts) = (unat t1 + unat BREAK_DURATION \<le> unat t2 \<and> spaced (t2 # ts))"

fun is_start :: "call \<Rightarrow> bool" where
  "is_start (StartCounselingSession ty sev) = True"
| "is_start (RegisterPatient a d t) = False"
| "is_start (CompleteSession i sc) = False"
| "is_start (CreateTherapyPlan p n pr) = False"
| "is_start (UpdateMentalHealthLevels a d t) = False"

text \<open>The number of calls of \<open>startCounselingSession\<close> that succeeded.\<close>

definition successful_starts :: "contract \<Rightarrow> (env \<times> call) list \<Rightarrow> nat" where
  "successful_starts s txs = length (filter is_start (map snd (succeeded s txs)))"

text \<open>The identities that registered, and the patients that received a plan.\<close>

fun registrant :: "env \<Rightarrow> call \<Rightarrow> address list" where
  "registrant e (RegisterPatient a d t) = [sender e]"
| "registrant e (StartCounselingSession ty sev) = []"
| "registrant e (CompleteSession i sc) = []"
| "registrant e (CreateTherapyPlan p n pr) = []"
| "registrant e (UpdateMentalHealthLevels a d t) = []"

definition registrants :: "contract \<Rightarrow> (env \<times> call) list \<Rightarrow> address list" where
  "registrants s txs = concat (map (\<lambda>(e, c). registrant e c) (succeeded s txs))"

fun plan_patient :: "call \<Rightarrow> address list" where
  "plan_patient (CreateTherapyPlan p n pr) = [p]"
| "plan_patient (RegisterPatient a d t) = []"
| "plan_patient (StartCounselingSession ty sev) = []"
| "plan_patient (CompleteSession i sc) = []"
| "plan_patient (UpdateMentalHealthLevels a d t) = []"

definition planned :: "contract \<Rightarrow> (env \<times> call) list \<Rightarrow> address list" where
  "planned s txs = concat (map plan_patient (map snd (succeeded s txs)))"

text \<open>The invariant behind the session map: the counter is never 0, and the ids 0 and
  from the counter upwards still hold the zero session.\<close>

definition unused_ids_blank :: "contract \<Rightarrow> bool" where
  "unused_ids_blank s =
     (currentSessionId s \<noteq> 0 \<and>
      (\<forall>i. i = 0 \<or> currentSessionId s \<le> i \<longrightarrow> sessions s i = zero_session))"

text \<open>A session is stored under an id, with its owner and its start time: exactly one of
  the two flags is set, the session is in progress or completed.\<close>

definition stored_session :: "contract \<Rightarrow> uint16 \<Rightarrow> address \<Rightarrow> uint256 \<Rightarrow> bool" where
  "stored_session s i p t =
     (patient (sessions s i) = p \<and> startTime (sessions s i) = t \<and>
      sessionActive (sessions s i) \<noteq> sessionCompleted (sessions s i))"

section \<open>Properties\<close>

subsection \<open>Outcome of each call\<close>

lemmas modifier_defs = onlyCounselor_def onlyRegisteredPatient_def sessionAvailable_def
  isSessionTimeAvailable_def checked_add_def

lemmas scenario_defs = counselor0_def patient1_def patient2_def at_def deployed_def
  registered_def constructor_def zero_profile_def zero_session_def zero_plan_def

lemmas function_defs = exec_def transact_def registerPatient_def startCounselingSession_def
  completeSession_def createTherapyPlan_def updateMentalHealthLevels_def
  checkEmergencyLevel_def grant_def asEuint8_def BREAK_DURATION_def Let_def

lemma exec_reverted: "fst (exec e c s) = Reverted r \<Longrightarrow> snd (exec e c s) = s"
  by (auto simp: exec_def transact_def split: sum.splits prod.splits)

lemma exec_eq_reverted: "fst (exec e c s) = Reverted r \<Longrightarrow> exec e c s = (Reverted r, s)"
  by (metis exec_reverted prod.collapse)

text \<open>Every \<^verbatim>\<open>require\<close> of the contract comes before the first write of its function;
  only the panic of the session counter finds storage already written.\<close>

lemma requires_before_writes:
  "body_of e c s = Inl (r, written) \<Longrightarrow>
   written = s \<or> (is_start c \<and> r = Panic_overflow \<and> currentSessionId s = 65535)"
  by (cases c)
     (auto simp: registerPatient_def startCounselingSession_def completeSession_def
        createTherapyPlan_def updateMentalHealthLevels_def modifier_defs grant_def Let_def
        split: if_splits)

lemma fst_register:
  "fst (exec e (RegisterPatient a d t) s) =
    (if \<not> (a \<le> 10 \<and> d \<le> 10 \<and> t \<le> 10) then Reverted Levels_must_be_0_10
     else if isActive (patientProfiles s (sender e)) then Reverted Patient_already_registered
     else Success (checkEmergencyLevel e a d t @ [PatientRegistered (sender e) (timestamp e)]))"
  by (simp add: exec_def transact_def registerPatient_def Let_def)

lemma fst_update:
  "fst (exec e (UpdateMentalHealthLevels a d t) s) =
    (if \<not> isActive (patientProfiles s (sender e)) then Reverted Patient_not_registered
     else if \<not> (a \<le> 10 \<and> d \<le> 10 \<and> t \<le> 10) then Reverted Levels_must_be_0_10
     else Success (checkEmergencyLevel e a d t))"
  by (simp add: exec_def transact_def updateMentalHealthLevels_def onlyRegisteredPatient_def
      Let_def)

lemma fst_complete:
  "fst (exec e (CompleteSession i sc) s) =
    (if \<not> sc \<le> 10 then Reverted Improvement_score_must_be_0_10
     else if \<not> (patient (sessions s i) = sender e \<or> sender e = counselor s)
       then Reverted Not_authorized
     else if \<not> sessionActive (sessions s i) then Reverted Session_not_active
     else if sessionCompleted (sessions s i) then Reverted Session_already_completed
     else Success [SessionCompleted i (patient (sessions s i)) (timestamp e)])"
  by (simp add: exec_def transact_def completeSession_def Let_def)

lemma fst_plan:
  "fst (exec e (CreateTherapyPlan p n pr) s) =
    (if sender e \<noteq> counselor s then Reverted Not_authorized_counselor
     else if \<not> isActive (patientProfiles s p) then Reverted Patient_not_registered
     else if \<not> (0 < n \<and> n \<le> 20) then Reverted Sessions_must_be_1_20
     else if \<not> (1 \<le> pr \<and> pr \<le> 4) then Reverted Priority_must_be_1_4
     else Success [TherapyPlanCreated p (timestamp e)])"
  by (simp add: exec_def transact_def createTherapyPlan_def onlyCounselor_def Let_def)

lemma fst_start:
  "fst (exec e (StartCounselingSession ty sev) s) =
    (if \<not> isActive (patientProfiles s (sender e)) then Reverted Patient_not_registered
     else if \<not> unat (lastSessionTime s) + unat BREAK_DURATION < 2 ^ 256
       then Reverted Panic_overflow
     else if \<not> lastSessionTime s + BREAK_DURATION \<le> timestamp e
       then Reverted No_session_slots_available
     else if \<not> (1 \<le> ty \<and> ty \<le> 4) then Reverted Invalid_session_type
     else if \<not> (1 \<le> sev \<and> sev \<le> 10) then Reverted Severity_must_be_1_10
     else if currentSessionId s = 65535 then Reverted Panic_overflow
     else Success [SessionStarted (currentSessionId s) (sender e) (timestamp e)])"
  by (simp add: exec_def transact_def startCounselingSession_def modifier_defs grant_def
      Let_def)

lemma break_duration: "unat BREAK_DURATION = 1800"
  by (simp add: BREAK_DURATION_def)

lemma boundary_le:
  "unat (lastSessionTime s) + unat BREAK_DURATION < 2 ^ 256 \<Longrightarrow>
   (lastSessionTime s + BREAK_DURATION \<le> timestamp e) =
   (unat (lastSessionTime s) + unat BREAK_DURATION \<le> unat (timestamp e))"
  by (simp add: word_le_nat_alt unat_add_lem [THEN iffD1])

lemma registered_active: "isActive (patientProfiles registered patient1)"
  by (simp add: scenario_defs function_defs)

lemmas body_defs = exec_def transact_def registerPatient_def startCounselingSession_def
  completeSession_def createTherapyPlan_def updateMentalHealthLevels_def
  modifier_defs grant_def Let_def

lemma registered_fields:
  "currentSessionId registered = 1" "lastSessionTime registered = 1000"
  "counselor registered = counselor0" "sessions registered = (\<lambda>_. zero_session)"
  by (simp_all add: scenario_defs function_defs)

lemma deployed_fields:
  "currentSessionId deployed = 1" "lastSessionTime deployed = 1000"
  "counselor deployed = counselor0" "sessions deployed = (\<lambda>_. zero_session)"
  "patientProfiles deployed = (\<lambda>_. zero_profile)"
  by (simp_all add: scenario_defs)

lemma run_registered: "run deployed [(at patient1 1000, RegisterPatient 7 5 6)] = registered"
  by (simp add: registered_def)


subsection \<open>One step of a history\<close>

lemma step_counter:
  "currentSessionId (snd (exec e c s)) =
     (if is_start c \<and> is_success (fst (exec e c s))
      then currentSessionId s + 1 else currentSessionId s)"
  by (cases c) (auto simp: body_defs split: if_splits)

lemma step_not_full:
  "is_start c \<Longrightarrow> is_success (fst (exec e c s)) \<Longrightarrow> currentSessionId s \<noteq> 65535"
  by (cases c) (auto simp: fst_start split: if_splits)

lemma step_ids:
  "concat (map started_id (events_of (fst (exec e c s)))) =
     (if is_start c \<and> is_success (fst (exec e c s)) then [currentSessionId s] else [])"
  by (cases c)
     (auto simp: fst_start fst_register fst_update fst_complete fst_plan
        checkEmergencyLevel_def split: if_splits)

lemma unat_succ_id:
  assumes "x \<noteq> (65535 :: uint16)"
  shows "unat (x + 1) = Suc (unat x)"
proof -
  have "unat x < 2 ^ 16"
    using unsigned_less [of x] by simp
  moreover have "unat x \<noteq> 65535"
    using assms by (simp add: word_unat_eq_iff)
  ultimately have "unat x + unat (1 :: uint16) < 2 ^ LENGTH(16)"
    by simp
  then show ?thesis
    by (simp add: unat_add_lem [THEN iffD1])
qed

lemma succeeded_Cons:
  "succeeded s ((e, c) # txs) =
     (if is_success (fst (exec e c s)) then [(e, c)] else []) @ succeeded (snd (exec e c s)) txs"
  by (cases "fst (exec e c s)") simp_all

lemma successful_starts_Cons:
  "successful_starts s ((e, c) # txs) =
     (if is_start c \<and> is_success (fst (exec e c s)) then 1 else 0)
       + successful_starts (snd (exec e c s)) txs"
  by (simp add: successful_starts_def succeeded_Cons del: succeeded.simps)

lemma assigned_ids_Cons:
  "assigned_ids s ((e, c) # txs) =
     (if is_start c \<and> is_success (fst (exec e c s)) then [currentSessionId s] else [])
       @ assigned_ids (snd (exec e c s)) txs"
  by (simp add: assigned_ids_def event_log_def step_ids)

lemma step_sessions:
  "sessions (snd (exec e c s)) j = sessions s j
   \<or> (is_start c \<and> is_success (fst (exec e c s)) \<and> j = currentSessionId s)
   \<or> sessionActive (sessions s j)"
  by (cases c) (auto simp: body_defs split: if_splits)

lemma step_profiles:
  "isActive (patientProfiles (snd (exec e c s)) a) \<Longrightarrow>
   isActive (patientProfiles s a) \<or> (is_success (fst (exec e c s)) \<and> a \<in> set (registrant e c))"
  by (cases c) (auto simp: body_defs split: if_splits)

lemma step_plans:
  "therapyPlans (snd (exec e c s)) a = therapyPlans s a
   \<or> (is_success (fst (exec e c s)) \<and> a \<in> set (plan_patient c))"
  by (cases c) (auto simp: body_defs split: if_splits)

lemma step_counselor: "counselor (snd (exec e c s)) = counselor s"
  by (cases c) (auto simp: body_defs split: if_splits)

lemma run_counselor: "counselor (run s txs) = counselor s"
  by (induction txs arbitrary: s) (auto simp: step_counselor)

lemma step_active:
  "isActive (patientProfiles s a) \<Longrightarrow> isActive (patientProfiles (snd (exec e c s)) a)"
  by (cases c) (auto simp: body_defs split: if_splits)

lemma start_success_state:
  "is_success (fst (exec e (StartCounselingSession ty sev) s)) \<Longrightarrow>
   lastSessionTime (snd (exec e (StartCounselingSession ty sev) s)) = timestamp e"
  by (auto simp: body_defs split: if_splits)

lemma step_last:
  "lastSessionTime (snd (exec e c s)) =
     (if is_start c \<and> is_success (fst (exec e c s)) then timestamp e else lastSessionTime s)"
  by (cases c) (auto simp: body_defs split: if_splits)

lemma step_times:
  "concat (map started_time (events_of (fst (exec e c s)))) =
     (if is_start c \<and> is_success (fst (exec e c s)) then [timestamp e] else [])"
  by (cases c)
     (auto simp: fst_start fst_register fst_update fst_complete fst_plan
        checkEmergencyLevel_def split: if_splits)

lemma step_started_by:
  "concat (map (started_by a) (events_of (fst (exec e c s)))) =
     (if is_start c \<and> is_success (fst (exec e c s)) \<and> sender e = a
      then [currentSessionId s] else [])"
  by (cases c)
     (auto simp: fst_start fst_register fst_update fst_complete fst_plan
        checkEmergencyLevel_def split: if_splits)

lemma step_patientSessions:
  "patientSessions (snd (exec e c s)) a =
     patientSessions s a @
       (if is_start c \<and> is_success (fst (exec e c s)) \<and> sender e = a
        then [currentSessionId s] else [])"
  by (cases c) (auto simp: body_defs split: if_splits)

lemma step_boundary:
  "is_start c \<Longrightarrow> is_success (fst (exec e c s)) \<Longrightarrow>
   unat (lastSessionTime s) + unat BREAK_DURATION \<le> unat (timestamp e)"
  by (cases c) (auto simp: fst_start boundary_le split: if_splits)

lemma step_started_event:
  "SessionStarted i p t \<in> set (events_of (fst (exec e c s))) \<Longrightarrow>
   is_start c \<and> is_success (fst (exec e c s)) \<and>
   i = currentSessionId s \<and> p = sender e \<and> t = timestamp e"
  by (cases c)
     (auto simp: fst_start fst_register fst_update fst_complete fst_plan
        checkEmergencyLevel_def split: if_splits)

lemma start_stores:
  "is_success (fst (exec e (StartCounselingSession ty sev) s)) \<Longrightarrow>
   sessions (snd (exec e (StartCounselingSession ty sev) s)) (currentSessionId s) =
     \<lparr>sessionType = Encrypted ty, severityLevel = Encrypted sev, sessionActive = True,
      sessionCompleted = False, patient = sender e, startTime = timestamp e, endTime = 0,
      improvementScore = Encrypted 0\<rparr>"
  by (auto simp: body_defs asEuint8_def split: if_splits)

lemma step_stored:
  "unused_ids_blank s \<Longrightarrow> stored_session s i p t \<Longrightarrow>
   stored_session (snd (exec e c s)) i p t"
  by (cases c)
     (auto simp: body_defs stored_session_def unused_ids_blank_def zero_session_def
        split: if_splits)

lemma step_profiles_eq:
  "patientProfiles (snd (exec e c s)) a = patientProfiles s a
   \<or> (is_success (fst (exec e c s)) \<and> a \<in> set (registrant e c))
   \<or> isActive (patientProfiles s a)"
  by (cases c) (auto simp: body_defs split: if_splits)

subsection \<open>Whole histories\<close>

lemma run_append: "run s (xs @ ys) = run (run s xs) ys"
  by (induction xs arbitrary: s) auto

lemma upt_shift: "[k ..< k + Suc n] = k # [Suc k ..< Suc k + n]"
  by (subst upt_conv_Cons) simp_all

lemma ids_from:
  "map unat (assigned_ids s txs) =
     [unat (currentSessionId s) ..< unat (currentSessionId s) + successful_starts s txs]
   \<and> unat (currentSessionId (run s txs)) = unat (currentSessionId s) + successful_starts s txs"
proof (induction txs arbitrary: s)
  case Nil
  show ?case by (simp add: assigned_ids_def event_log_def successful_starts_def)
next
  case (Cons tx txs)
  obtain e c where tx: "tx = (e, c)" by (cases tx)
  define s' where "s' = snd (exec e c s)"
  define k where "k = unat (currentSessionId s)"
  define n where "n = successful_starts s' txs"
  have r: "run s (tx # txs) = run s' txs"
    by (simp add: tx s'_def)
  have IH1: "map unat (assigned_ids s' txs) =
      [unat (currentSessionId s') ..< unat (currentSessionId s') + n]"
    and IH2: "unat (currentSessionId (run s' txs)) = unat (currentSessionId s') + n"
    using Cons.IH [of s'] by (simp_all only: n_def)
  show ?case
  proof (cases "is_start c \<and> is_success (fst (exec e c s))")
    case True
    then have "currentSessionId s \<noteq> 65535" using step_not_full by blast
    then have u: "unat (currentSessionId s') = Suc k"
      using True by (simp add: step_counter unat_succ_id s'_def k_def)
    have ids: "assigned_ids s (tx # txs) = currentSessionId s # assigned_ids s' txs"
      using True by (simp add: tx assigned_ids_Cons s'_def)
    have cnt: "successful_starts s (tx # txs) = Suc n"
      using True by (simp add: tx successful_starts_Cons s'_def n_def)
    have "map unat (assigned_ids s (tx # txs)) = k # [Suc k ..< Suc k + n]"
      using IH1 by (simp only: ids u list.map k_def)
    also have "\<dots> = [k ..< k + Suc n]"
      by (rule upt_shift [symmetric])
    finally have A: "map unat (assigned_ids s (tx # txs)) = [k ..< k + Suc n]" .
    have B: "unat (currentSessionId (run s (tx # txs))) = k + Suc n"
      using IH2 by (simp only: r u add_Suc_right add_Suc)
    show ?thesis unfolding cnt k_def [symmetric] using A B by (rule conjI)
  next
    case False
    then have u: "currentSessionId s' = currentSessionId s"
      by (simp add: step_counter s'_def)
    have ids: "assigned_ids s (tx # txs) = assigned_ids s' txs"
      using False by (simp add: tx assigned_ids_Cons s'_def)
    have cnt: "successful_starts s (tx # txs) = n"
      using False by (simp add: tx successful_starts_Cons s'_def n_def)
    show ?thesis unfolding ids cnt r u [symmetric] using IH1 IH2 by (rule conjI)
  qed
qed

lemma blank_constructor: "unused_ids_blank (constructor e0)"
  by (simp add: unused_ids_blank_def constructor_def)

lemma blank_step:
  assumes "unused_ids_blank s"
  shows "unused_ids_blank (snd (exec e c s))"
proof (cases "is_start c \<and> is_success (fst (exec e c s))")
  case True
  then have nf: "currentSessionId s \<noteq> 65535" using step_not_full by blast
  have cur: "currentSessionId (snd (exec e c s)) = currentSessionId s + 1"
    using True by (simp add: step_counter)
  have u: "unat (currentSessionId s + 1) = Suc (unat (currentSessionId s))"
    using nf by (rule unat_succ_id)
  have nz: "currentSessionId s + 1 \<noteq> 0"
    using u by (metis Zero_not_Suc unat_0)
  have "sessions (snd (exec e c s)) j = zero_session"
    if j: "j = 0 \<or> currentSessionId s + 1 \<le> j" for j
  proof -
    have ne: "j \<noteq> currentSessionId s"
      using j assms u by (auto simp: unused_ids_blank_def word_le_nat_alt)
    have old: "j = 0 \<or> currentSessionId s \<le> j"
      using j u by (auto simp: word_le_nat_alt)
    then have z: "sessions s j = zero_session"
      using assms unfolding unused_ids_blank_def by blast
    then have "\<not> sessionActive (sessions s j)" by (simp add: zero_session_def)
    with step_sessions [of e c s j] ne z show ?thesis by auto
  qed
  then show ?thesis using nz by (simp add: unused_ids_blank_def cur)
next
  case False
  then have cur: "currentSessionId (snd (exec e c s)) = currentSessionId s"
    by (simp add: step_counter)
  have "sessions (snd (exec e c s)) j = zero_session"
    if j: "j = 0 \<or> currentSessionId s \<le> j" for j
  proof -
    have z: "sessions s j = zero_session"
      using j assms unfolding unused_ids_blank_def by blast
    then have "\<not> sessionActive (sessions s j)" by (simp add: zero_session_def)
    with step_sessions [of e c s j] False z show ?thesis by auto
  qed
  then show ?thesis using assms by (simp add: unused_ids_blank_def cur)
qed

lemma blank_run: "unused_ids_blank s \<Longrightarrow> unused_ids_blank (run s txs)"
proof (induction txs arbitrary: s)
  case Nil
  then show ?case by simp
next
  case (Cons tx txs)
  obtain e c where tx: "tx = (e, c)" by (cases tx)
  show ?case using Cons.IH [OF blank_step [OF Cons.prems, of e c]] by (simp add: tx)
qed

lemma registrants_Cons:
  "registrants s ((e, c) # txs) =
     (if is_success (fst (exec e c s)) then registrant e c else [])
       @ registrants (snd (exec e c s)) txs"
  by (simp add: registrants_def succeeded_Cons del: succeeded.simps)

lemma planned_Cons:
  "planned s ((e, c) # txs) =
     (if is_success (fst (exec e c s)) then plan_patient c else [])
       @ planned (snd (exec e c s)) txs"
  by (simp add: planned_def succeeded_Cons del: succeeded.simps)

lemma never_registered_run:
  "\<not> isActive (patientProfiles s a) \<Longrightarrow> a \<notin> set (registrants s txs) \<Longrightarrow>
   \<not> isActive (patientProfiles (run s txs) a)"
proof (induction txs arbitrary: s)
  case Nil
  then show ?case by simp
next
  case (Cons tx txs)
  obtain e c where tx: "tx = (e, c)" by (cases tx)
  have "\<not> isActive (patientProfiles (snd (exec e c s)) a)"
    using Cons.prems step_profiles [of e c s a]
    by (auto simp: tx registrants_Cons split: if_splits)
  moreover have "a \<notin> set (registrants (snd (exec e c s)) txs)"
    using Cons.prems(2) by (simp add: tx registrants_Cons)
  ultimately show ?case using Cons.IH by (simp add: tx)
qed

lemma never_planned_run:
  "therapyPlans s a = zero_plan \<Longrightarrow> a \<notin> set (planned s txs) \<Longrightarrow>
   therapyPlans (run s txs) a = zero_plan"
proof (induction txs arbitrary: s)
  case Nil
  then show ?case by simp
next
  case (Cons tx txs)
  obtain e c where tx: "tx = (e, c)" by (cases tx)
  have "therapyPlans (snd (exec e c s)) a = zero_plan"
    using Cons.prems step_plans [of e c s a]
    by (auto simp: tx planned_Cons split: if_splits)
  moreover have "a \<notin> set (planned (snd (exec e c s)) txs)"
    using Cons.prems(2) by (simp add: tx planned_Cons)
  ultimately show ?case using Cons.IH by (simp add: tx)
qed

lemma never_assigned_blank:
  assumes "i \<notin> set (assigned_ids (constructor e0) txs)"
  shows "sessions (run (constructor e0) txs) i = zero_session"
proof -
  let ?s = "run (constructor e0) txs"
  let ?n = "successful_starts (constructor e0) txs"
  have c1: "unat (currentSessionId (constructor e0)) = 1"
    by (simp add: constructor_def)
  from ids_from [of "constructor e0" txs]
  have ids: "map unat (assigned_ids (constructor e0) txs) = [1 ..< 1 + ?n]"
    and cur: "unat (currentSessionId ?s) = 1 + ?n"
    by (simp_all only: c1)
  have "unat i \<notin> set (map unat (assigned_ids (constructor e0) txs))"
  proof
    assume "unat i \<in> set (map unat (assigned_ids (constructor e0) txs))"
    then obtain x where x: "x \<in> set (assigned_ids (constructor e0) txs)" "unat x = unat i"
      by auto
    from x(2) have "x = i" by (simp add: word_unat_eq_iff)
    with x(1) assms show False by simp
  qed
  then have "unat i = 0 \<or> 1 + ?n \<le> unat i"
    unfolding ids by auto
  then have "i = 0 \<or> currentSessionId ?s \<le> i"
    using cur by (auto simp: word_le_nat_alt unat_eq_0)
  then show ?thesis
    using blank_run [OF blank_constructor, of e0 txs] unfolding unused_ids_blank_def by blast
qed

lemma event_log_Cons:
  "event_log s ((e, c) # txs) =
     events_of (fst (exec e c s)) @ event_log (snd (exec e c s)) txs"
  by (simp add: event_log_def)

lemma start_times_Cons:
  "start_times s ((e, c) # txs) =
     (if is_start c \<and> is_success (fst (exec e c s)) then [timestamp e] else [])
       @ start_times (snd (exec e c s)) txs"
  by (simp add: start_times_def event_log_def step_times)

lemma sessions_started_by_Cons:
  "sessions_started_by a s ((e, c) # txs) =
     (if is_start c \<and> is_success (fst (exec e c s)) \<and> sender e = a
      then [currentSessionId s] else [])
       @ sessions_started_by a (snd (exec e c s)) txs"
  by (simp add: sessions_started_by_def event_log_def step_started_by)

lemma last_start_run:
  "lastSessionTime (run s txs) = last (lastSessionTime s # start_times s txs)"
proof (induction txs arbitrary: s)
  case Nil
  show ?case by (simp add: start_times_def event_log_def)
next
  case (Cons tx txs)
  obtain e c where tx: "tx = (e, c)" by (cases tx)
  show ?case
    using Cons.IH [of "snd (exec e c s)"]
    by (simp add: tx start_times_Cons step_last)
qed

lemma spaced_run: "spaced (lastSessionTime s # start_times s txs)"
proof (induction txs arbitrary: s)
  case Nil
  show ?case by (simp add: start_times_def event_log_def)
next
  case (Cons tx txs)
  obtain e c where tx: "tx = (e, c)" by (cases tx)
  show ?case
  proof (cases "is_start c \<and> is_success (fst (exec e c s))")
    case True
    then have b: "unat (lastSessionTime s) + unat BREAK_DURATION \<le> unat (timestamp e)"
      using step_boundary by blast
    have "spaced (timestamp e # start_times (snd (exec e c s)) txs)"
      using Cons.IH [of "snd (exec e c s)"] True by (simp add: step_last)
    with b True show ?thesis by (simp add: tx start_times_Cons)
  next
    case False
    then have "lastSessionTime (snd (exec e c s)) = lastSessionTime s"
      by (auto simp: step_last)
    with False show ?thesis
      using Cons.IH [of "snd (exec e c s)"] by (auto simp add: tx start_times_Cons)
  qed
qed

lemma spaced_tl: "spaced (t # ts) \<Longrightarrow> spaced ts"
  by (cases ts) simp_all

lemma patientSessions_run:
  "patientSessions (run s txs) a = patientSessions s a @ sessions_started_by a s txs"
proof (induction txs arbitrary: s)
  case Nil
  show ?case by (simp add: sessions_started_by_def event_log_def)
next
  case (Cons tx txs)
  obtain e c where tx: "tx = (e, c)" by (cases tx)
  show ?case
    using Cons.IH [of "snd (exec e c s)"]
    by (simp add: tx sessions_started_by_Cons step_patientSessions)
qed

lemma stored_run:
  "unused_ids_blank s \<Longrightarrow> stored_session s i p t \<Longrightarrow> stored_session (run s txs) i p t"
proof (induction txs arbitrary: s)
  case Nil
  then show ?case by simp
next
  case (Cons tx txs)
  obtain e c where tx: "tx = (e, c)" by (cases tx)
  show ?case
    using Cons.IH [OF blank_step [OF Cons.prems(1), of e c] step_stored [OF Cons.prems, of e c]]
    by (simp add: tx)
qed

lemma started_stored_run:
  "unused_ids_blank s \<Longrightarrow> SessionStarted i p t \<in> set (event_log s txs) \<Longrightarrow>
   stored_session (run s txs) i p t"
proof (induction txs arbitrary: s)
  case Nil
  then show ?case by (simp add: event_log_def)
next
  case (Cons tx txs)
  obtain e c where tx: "tx = (e, c)" by (cases tx)
  let ?s' = "snd (exec e c s)"
  have blank': "unused_ids_blank ?s'"
    by (rule blank_step [OF Cons.prems(1)])
  from Cons.prems(2) consider
      (now) "SessionStarted i p t \<in> set (events_of (fst (exec e c s)))"
    | (later) "SessionStarted i p t \<in> set (event_log ?s' txs)"
    by (auto simp: tx event_log_Cons)
  then show ?case
  proof cases
    case now
    from step_started_event [OF now]
    have st: "is_start c" and ok: "is_success (fst (exec e c s))"
      and i: "i = currentSessionId s" and p: "p = sender e" and t: "t = timestamp e"
      by simp_all
    from st obtain ty sev where c: "c = StartCounselingSession ty sev"
      by (cases c) simp_all
    have "stored_session ?s' i p t"
      using start_stores [of e ty sev s] ok
      by (simp add: c i p t stored_session_def)
    from stored_run [OF blank' this] show ?thesis by (simp add: tx)
  next
    case later
    from Cons.IH [OF blank' later] show ?thesis by (simp add: tx)
  qed
qed

lemma assigned_ids_events:
  "i \<in> set (assigned_ids s txs) \<longleftrightarrow> (\<exists>p t. SessionStarted i p t \<in> set (event_log s txs))"
proof -
  have "i \<in> set (started_id ev) \<longleftrightarrow> (\<exists>p t. ev = SessionStarted i p t)" for ev
    by (cases ev) auto
  then show ?thesis
    by (auto simp: assigned_ids_def)
qed

lemma never_registered_zero:
  "patientProfiles s a = zero_profile \<Longrightarrow> a \<notin> set (registrants s txs) \<Longrightarrow>
   patientProfiles (run s txs) a = zero_profile"
proof (induction txs arbitrary: s)
  case Nil
  then show ?case by simp
next
  case (Cons tx txs)
  obtain e c where tx: "tx = (e, c)" by (cases tx)
  have "\<not> isActive (patientProfiles s a)"
    using Cons.prems(1) by (simp add: zero_profile_def)
  then have "patientProfiles (snd (exec e c s)) a = zero_profile"
    using Cons.prems step_profiles_eq [of e c s a]
    by (auto simp: tx registrants_Cons split: if_splits)
  moreover have "a \<notin> set (registrants (snd (exec e c s)) txs)"
    using Cons.prems(2) by (simp add: tx registrants_Cons)
  ultimately show ?case using Cons.IH by (simp add: tx)
qed

lemma availability_total:
  assumes "unat (lastSessionTime s) + unat BREAK_DURATION < 2 ^ 256"
  shows "isSessionTimeAvailable e s = Inr (lastSessionTime s + BREAK_DURATION \<le> timestamp e)"
    and "getSessionAvailability e s =
           Inr (lastSessionTime s + BREAK_DURATION \<le> timestamp e,
                if lastSessionTime s + BREAK_DURATION \<le> timestamp e then timestamp e
                else lastSessionTime s + BREAK_DURATION,
                timestamp e)"
  using assms
  by (simp_all add: isSessionTimeAvailable_def getSessionAvailability_def checked_add_def)

lemma availability_panics:
  assumes "\<not> unat (lastSessionTime s) + unat BREAK_DURATION < 2 ^ 256"
  shows "isSessionTimeAvailable e s = Inl Panic_overflow"
    and "getSessionAvailability e s = Inl Panic_overflow"
  using assms
  by (simp_all add: isSessionTimeAvailable_def getSessionAvailability_def checked_add_def)

subsection \<open>The long history\<close>

lemma unat_time: "n \<le> 65535 \<Longrightarrow> unat (of_nat (1000 + 1800 * n) :: uint256) = 1000 + 1800 * n"
  by (simp add: unat_of_nat del: of_nat_add of_nat_mult)

lemma bookings_state:
  "n \<le> 65534 \<Longrightarrow>
   currentSessionId (run deployed (bookings n)) = of_nat (Suc n)
   \<and> lastSessionTime (run deployed (bookings n)) = of_nat (1000 + 1800 * n)
   \<and> isActive (patientProfiles (run deployed (bookings n)) patient1)"
proof (induction n)
  case 0
  have "run deployed (bookings 0) = registered"
    by (simp add: bookings_def registered_def)
  then show ?case
    using registered_active by (simp add: registered_fields)
next
  case (Suc n)
  define s where "s = run deployed (bookings n)"
  define e where "e = at patient1 (of_nat (1000 + 1800 * Suc n))"
  have r: "run deployed (bookings (Suc n)) = snd (exec e (StartCounselingSession 1 8) s)"
    by (simp add: bookings_def run_append s_def e_def booking_def del: of_nat_add of_nat_mult)
  from Suc have cur: "currentSessionId s = of_nat (Suc n)"
    and last: "lastSessionTime s = of_nat (1000 + 1800 * n)"
    and act: "isActive (patientProfiles s patient1)"
    by (simp_all add: s_def del: of_nat_add of_nat_mult of_nat_Suc)
  have ul: "unat (lastSessionTime s) = 1000 + 1800 * n"
    using Suc.prems by (simp only: last) (rule unat_time, simp)
  have ut: "unat (timestamp e) = 1000 + 1800 * Suc n"
    using Suc.prems unat_time [of "Suc n"] by (simp add: e_def at_def del: of_nat_add of_nat_mult of_nat_Suc)
  have rep: "unat (lastSessionTime s) + unat BREAK_DURATION < 2 ^ 256"
    using Suc.prems by (simp add: ul break_duration)
  have bnd: "lastSessionTime s + BREAK_DURATION \<le> timestamp e"
    by (simp only: boundary_le [OF rep] ul ut break_duration) simp
  have "unat (currentSessionId s) = Suc n"
    using Suc.prems by (simp only: cur) (simp add: unat_of_nat del: of_nat_Suc)
  then have nf: "currentSessionId s \<noteq> 65535"
    using Suc.prems by (auto simp: word_unat_eq_iff)
  have ok: "is_success (fst (exec e (StartCounselingSession 1 8) s))"
    using act rep bnd nf by (simp add: fst_start e_def at_def)
  have c': "currentSessionId (snd (exec e (StartCounselingSession 1 8) s)) = of_nat (Suc (Suc n))"
    using ok by (simp add: step_counter cur)
  have l': "lastSessionTime (snd (exec e (StartCounselingSession 1 8) s)) = of_nat (1000 + 1800 * Suc n)"
    using start_success_state [OF ok] by (simp add: e_def at_def del: of_nat_add of_nat_mult of_nat_Suc)
  show ?case
    unfolding r using c' l' step_active [OF act] by blast
qed

lemma fully_booked_fields:
  "currentSessionId fully_booked = 65535"
  "lastSessionTime fully_booked = 117962200"
  "isActive (patientProfiles fully_booked patient1)"
  using bookings_state [of 65534] by (simp_all add: fully_booked_def)

lemma fully_booked_last_id: "sessions fully_booked 65535 = zero_session"
proof -
  have "unused_ids_blank fully_booked"
    unfolding fully_booked_def deployed_def by (rule blank_run [OF blank_constructor])
  then show ?thesis
    unfolding unused_ids_blank_def by (simp add: fully_booked_fields)
qed

subsection \<open>The short histories\<close>

lemma one_session_facts:
  "start_times deployed one_session = [2800]"
  "lastSessionTime (run deployed one_session) = 2800"
  "currentSessionId (run deployed one_session) = 2"
  "isActive (patientProfiles (run deployed one_session) patient1)"
  by (simp_all add: one_session_def start_times_def event_log_def scenario_defs function_defs
      modifier_defs)

lemma deployed_late_facts:
  "lastSessionTime deployed_late = uint256_max"
  "isActive (patientProfiles deployed_late patient1)"
  "currentSessionId deployed_late = 1"
  by (simp_all add: deployed_late_def scenario_defs function_defs)

lemma two_sessions_facts:
  "event_log deployed two_sessions =
     [PatientRegistered patient1 1000, SessionStarted 1 patient1 2800,
      SessionStarted 2 patient1 4600]"
  "successful_starts deployed two_sessions = 2"
  by (simp_all add: two_sessions_def successful_starts_def event_log_def scenario_defs
      function_defs modifier_defs)

lemma planned_session_facts:
  "succeeded deployed planned_session = planned_session"
  "event_log deployed planned_session =
     [PatientRegistered patient1 1000, SessionStarted 1 patient1 2800,
      TherapyPlanCreated patient1 2800]"
  "lastSessionTime (run deployed planned_session) = 2800"
  by (simp_all add: planned_session_def event_log_def scenario_defs function_defs modifier_defs)

subsection \<open>Registering twice\<close>

text \<open>
  C3 (as amended). An identity with an active profile that calls \<open>registerPatient\<close> again
  is rejected and nothing changes. The range check comes first in the contract: with all
  three levels in [0,10] the call fails with "Patient already registered"
  (AlreadyRegistered), with a level above 10 it fails with "Levels must be 0-10"
  (OutOfRange).
\<close>

theorem register_again_rejected:
  assumes "isActive (patientProfiles s (sender e))"
  shows "exec e (RegisterPatient a d t) s =
           (Reverted (if a \<le> 10 \<and> d \<le> 10 \<and> t \<le> 10 then Patient_already_registered
                      else Levels_must_be_0_10), s)
         \<and> taxonomy Patient_already_registered = Some AlreadyRegistered
         \<and> taxonomy Levels_must_be_0_10 = Some OutOfRange"
  using assms by (simp add: exec_eq_reverted fst_register)

theorem register_again_rejected_witness:
  "isActive (patientProfiles registered (sender (at patient1 1001)))
   \<and> exec (at patient1 1001) (RegisterPatient 5 4 3) registered
       = (Reverted Patient_already_registered, registered)"
proof -
  have h: "isActive (patientProfiles registered (sender (at patient1 1001)))"
    using registered_active by (simp add: at_def)
  from register_again_rejected [OF h, of 5 4 3] h show ?thesis by simp
qed

text \<open>
  C3 (as stated) fails: \<open>patient1\<close>, registered, calls \<open>registerPatient(11, 5, 6)\<close> and
  the call fails with "Levels must be 0-10", not with "Patient already registered".
\<close>

theorem register_again_out_of_range_counterexample:
  "isActive (patientProfiles registered (sender (at patient1 1001)))
   \<and> fst (exec (at patient1 1001) (RegisterPatient 11 5 6) registered)
       = Reverted Levels_must_be_0_10
   \<and> taxonomy Levels_must_be_0_10 \<noteq> Some AlreadyRegistered"
  using registered_active by (simp add: fst_register at_def)

subsection \<open>The emergency signal\<close>

text \<open>
  C5. For levels in [0,10], a registration (by an identity without a profile) and an update
  (by an identity with one) succeed, and they emit \<open>EmergencyAlert\<close> exactly when one
  level is at least 9 or all three are at least 7. The alert carries the caller and the
  block time and nothing else; the only other event is \<open>PatientRegistered\<close>, with the
  same two fields. The triples (9,0,0), (0,9,0), (0,0,9), (7,7,7) and (8,8,8) raise the
  alert, (6,7,7) and (5,4,6) do not.
\<close>

theorem emergency_signal_rule:
  assumes "anxiety \<le> 10" and "depression \<le> 10" and "stress \<le> 10"
  shows "(\<not> isActive (patientProfiles s (sender e)) \<longrightarrow>
           fst (exec e (RegisterPatient anxiety depression stress) s) =
             Success ((if 9 \<le> anxiety \<or> 9 \<le> depression \<or> 9 \<le> stress \<or>
                          (7 \<le> anxiety \<and> 7 \<le> depression \<and> 7 \<le> stress)
                       then [EmergencyAlert (sender e) (timestamp e)] else [])
                      @ [PatientRegistered (sender e) (timestamp e)]))
       \<and> (isActive (patientProfiles s (sender e)) \<longrightarrow>
           fst (exec e (UpdateMentalHealthLevels anxiety depression stress) s) =
             Success (if 9 \<le> anxiety \<or> 9 \<le> depression \<or> 9 \<le> stress \<or>
                          (7 \<le> anxiety \<and> 7 \<le> depression \<and> 7 \<le> stress)
                       then [EmergencyAlert (sender e) (timestamp e)] else []))
       \<and> checkEmergencyLevel e 9 0 0 = [EmergencyAlert (sender e) (timestamp e)]
       \<and> checkEmergencyLevel e 0 9 0 = [EmergencyAlert (sender e) (timestamp e)]
       \<and> checkEmergencyLevel e 0 0 9 = [EmergencyAlert (sender e) (timestamp e)]
       \<and> checkEmergencyLevel e 7 7 7 = [EmergencyAlert (sender e) (timestamp e)]
       \<and> checkEmergencyLevel e 8 8 8 = [EmergencyAlert (sender e) (timestamp e)]
       \<and> checkEmergencyLevel e 6 7 7 = []
       \<and> checkEmergencyLevel e 5 4 6 = []"
  using assms by (simp add: fst_register fst_update checkEmergencyLevel_def)

theorem emergency_signal_rule_witness:
  "(9::uint8) \<le> 10 \<and> (5::uint8) \<le> 10 \<and> (6::uint8) \<le> 10
   \<and> \<not> isActive (patientProfiles deployed (sender (at patient1 1000)))
   \<and> fst (exec (at patient1 1000) (RegisterPatient 9 5 6) deployed)
       = Success [EmergencyAlert patient1 1000, PatientRegistered patient1 1000]
   \<and> isActive (patientProfiles registered (sender (at patient1 1001)))
   \<and> fst (exec (at patient1 1001) (UpdateMentalHealthLevels 9 5 6) registered)
       = Success [EmergencyAlert patient1 1001]"
proof -
  have r: "(9::uint8) \<le> 10" "(5::uint8) \<le> 10" "(6::uint8) \<le> 10"
    by simp_all
  have n: "\<not> isActive (patientProfiles deployed (sender (at patient1 1000)))"
    by (simp add: scenario_defs)
  have h: "isActive (patientProfiles registered (sender (at patient1 1001)))"
    using registered_active by (simp add: at_def)
  from emergency_signal_rule [OF r, of deployed "at patient1 1000"]
    emergency_signal_rule [OF r, of registered "at patient1 1001"] n h r
  show ?thesis by (simp add: at_def)
qed

subsection \<open>The end-to-end scenario\<close>

text \<open>
  C1. The scenario, run on the contract with no time passing after the deployment:
  \<open>patient1\<close> registers with (7, 5, 6) and no alert is raised, but the
  \<open>startCounselingSession(1, 8)\<close> that follows does not succeed. It fails with
  "No session slots available", because the constructor sets \<open>lastSessionTime\<close> to the
  time of the deployment, so that the first 1800 seconds count as a break.
\<close>

theorem scenario_first_start_blocked:
  "outcomes deployed
     [(at patient1 1000, RegisterPatient 7 5 6),
      (at patient1 1000, StartCounselingSession 1 8)]
   = [Success [PatientRegistered patient1 1000], Reverted No_session_slots_available]"
  by (simp add: scenario_defs function_defs modifier_defs)

subsection \<open>Completing twice\<close>

text \<open>
  C4. The deployment is 1800 seconds old when \<open>patient1\<close> starts session 1 and
  completes it. The second \<open>completeSession(1, 7)\<close> fails, but with
  "Session not active": the first completion has cleared \<open>sessionActive\<close>, and that
  flag is required before \<open>sessionCompleted\<close> is looked at, so the message
  "Session already completed" is never given.
\<close>

theorem second_completion_not_active:
  "outcomes deployed
     [(at patient1 1000, RegisterPatient 7 5 6),
      (at patient1 2800, StartCounselingSession 1 8),
      (at patient1 2900, CompleteSession 1 7),
      (at patient1 3000, CompleteSession 1 7)]
   = [Success [PatientRegistered patient1 1000],
      Success [SessionStarted 1 patient1 2800],
      Success [SessionCompleted 1 patient1 2900],
      Reverted Session_not_active]
   \<and> taxonomy Session_not_active = Some SessionNotActive"
  by (simp add: scenario_defs function_defs modifier_defs)

subsection \<open>All or nothing\<close>

text \<open>
  C8. A call of \<open>registerPatient\<close>, \<open>updateMentalHealthLevels\<close>,
  \<open>startCounselingSession\<close>, \<open>completeSession\<close> or \<open>createTherapyPlan\<close> that does not
  succeed leaves the whole storage as it was: the profiles, the sessions, the plans,
  \<open>currentSessionId\<close> and \<open>lastSessionTime\<close>.
\<close>

theorem all_or_nothing:
  assumes "\<not> is_success (fst (exec e c s))"
  shows "snd (exec e c s) = s
         \<and> patientProfiles (snd (exec e c s)) = patientProfiles s
         \<and> sessions (snd (exec e c s)) = sessions s
         \<and> therapyPlans (snd (exec e c s)) = therapyPlans s
         \<and> currentSessionId (snd (exec e c s)) = currentSessionId s
         \<and> lastSessionTime (snd (exec e c s)) = lastSessionTime s"
proof -
  obtain r where "fst (exec e c s) = Reverted r"
    using assms by (cases "fst (exec e c s)") auto
  then have "snd (exec e c s) = s" by (rule exec_reverted)
  then show ?thesis by simp
qed

theorem all_or_nothing_witness:
  "\<not> is_success (fst (exec (at patient1 118000000) (StartCounselingSession 1 8) fully_booked))
   \<and> snd (exec (at patient1 118000000) (StartCounselingSession 1 8) fully_booked) = fully_booked
   \<and> (case body_of (at patient1 118000000) (StartCounselingSession 1 8) fully_booked of
         Inl (r, written) \<Rightarrow> r = Panic_overflow \<and> sessionActive (sessions written 65535)
       | Inr ok \<Rightarrow> False)
   \<and> \<not> sessionActive (sessions fully_booked 65535)"
proof -
  have "fst (exec (at patient1 118000000) (StartCounselingSession 1 8) fully_booked)
          = Reverted Panic_overflow"
    by (simp add: fst_start fully_booked_fields at_def BREAK_DURATION_def)
  then have h: "\<not> is_success
      (fst (exec (at patient1 118000000) (StartCounselingSession 1 8) fully_booked))"
    by simp
  have b: "(case body_of (at patient1 118000000) (StartCounselingSession 1 8) fully_booked of
         Inl (r, written) \<Rightarrow> r = Panic_overflow \<and> sessionActive (sessions written 65535)
       | Inr ok \<Rightarrow> False)"
    by (simp add: startCounselingSession_def modifier_defs grant_def Let_def
        fully_booked_fields at_def BREAK_DURATION_def)
  have z: "\<not> sessionActive (sessions fully_booked 65535)"
    by (simp add: fully_booked_last_id zero_session_def)
  from all_or_nothing [OF h] h b z show ?thesis by simp
qed

subsection \<open>The cooldown\<close>

text \<open>
  C2, amended. For a caller with an active profile, a \<open>startCounselingSession\<close> strictly
  before \<open>lastSessionTime + BREAK_DURATION\<close> (a time that fits \<^verbatim>\<open>uint256\<close>) fails with
  "No session slots available" and changes nothing; at or after that time, with a session
  type in {1,2,3,4}, a severity in [1,10] and a counter \<open>currentSessionId\<close> below 65535,
  it succeeds and emits \<open>SessionStarted\<close> with the current counter. A successful start
  sets \<open>lastSessionTime\<close> to the block time and no other call changes it. So after any
  history on the deployed contract in which a session was started, \<open>lastSessionTime\<close> is
  the time of the most recent successful start, the two statements above hold with that
  time, and successive successful starts are at least \<open>BREAK_DURATION\<close> apart.
  \<open>BREAK_DURATION\<close> is 1800.
\<close>

theorem cooldown_gate:
  "(isActive (patientProfiles s (sender e)) \<and>
      unat (lastSessionTime s) + unat BREAK_DURATION < 2 ^ 256 \<and>
      unat (timestamp e) < unat (lastSessionTime s) + unat BREAK_DURATION \<longrightarrow>
        exec e (StartCounselingSession ty sev) s = (Reverted No_session_slots_available, s))
   \<and> (isActive (patientProfiles s (sender e)) \<and>
      unat (lastSessionTime s) + unat BREAK_DURATION \<le> unat (timestamp e) \<and>
      1 \<le> ty \<and> ty \<le> 4 \<and> 1 \<le> sev \<and> sev \<le> 10 \<and> currentSessionId s \<noteq> 65535 \<longrightarrow>
        fst (exec e (StartCounselingSession ty sev) s) =
          Success [SessionStarted (currentSessionId s) (sender e) (timestamp e)])
   \<and> (is_success (fst (exec e (StartCounselingSession ty sev) s)) \<longrightarrow>
        lastSessionTime (snd (exec e (StartCounselingSession ty sev) s)) = timestamp e)
   \<and> (\<not> (is_start c \<and> is_success (fst (exec e c s))) \<longrightarrow>
        lastSessionTime (snd (exec e c s)) = lastSessionTime s)
   \<and> (start_times (constructor e0) txs \<noteq> [] \<longrightarrow>
        lastSessionTime (run (constructor e0) txs) = last (start_times (constructor e0) txs))
   \<and> spaced (start_times (constructor e0) txs)
   \<and> (start_times (constructor e0) txs \<noteq> [] \<and>
      isActive (patientProfiles (run (constructor e0) txs) (sender e)) \<and>
      unat (last (start_times (constructor e0) txs)) + unat BREAK_DURATION < 2 ^ 256 \<and>
      unat (timestamp e) < unat (last (start_times (constructor e0) txs)) + unat BREAK_DURATION \<longrightarrow>
        exec e (StartCounselingSession ty sev) (run (constructor e0) txs) =
          (Reverted No_session_slots_available, run (constructor e0) txs))
   \<and> (start_times (constructor e0) txs \<noteq> [] \<and>
      isActive (patientProfiles (run (constructor e0) txs) (sender e)) \<and>
      unat (last (start_times (constructor e0) txs)) + unat BREAK_DURATION \<le> unat (timestamp e) \<and>
      1 \<le> ty \<and> ty \<le> 4 \<and> 1 \<le> sev \<and> sev \<le> 10 \<and>
      currentSessionId (run (constructor e0) txs) \<noteq> 65535 \<longrightarrow>
        fst (exec e (StartCounselingSession ty sev) (run (constructor e0) txs)) =
          Success [SessionStarted (currentSessionId (run (constructor e0) txs))
                     (sender e) (timestamp e)])
   \<and> unat BREAK_DURATION = 1800
   \<and> taxonomy No_session_slots_available = Some NoSlotAvailable"
proof -
  have before: "exec e (StartCounselingSession ty sev) s = (Reverted No_session_slots_available, s)"
    if "isActive (patientProfiles s (sender e))"
      and "unat (lastSessionTime s) + unat BREAK_DURATION < 2 ^ 256"
      and "unat (timestamp e) < unat (lastSessionTime s) + unat BREAK_DURATION"
    for s
    using that by (intro exec_eq_reverted) (simp add: fst_start boundary_le)
  have after: "fst (exec e (StartCounselingSession ty sev) s) =
              Success [SessionStarted (currentSessionId s) (sender e) (timestamp e)]"
    if act: "isActive (patientProfiles s (sender e))"
      and bnd: "unat (lastSessionTime s) + unat BREAK_DURATION \<le> unat (timestamp e)"
      and args: "1 \<le> ty" "ty \<le> 4" "1 \<le> sev" "sev \<le> 10" "currentSessionId s \<noteq> 65535"
    for s
  proof -
    have "unat (timestamp e) < 2 ^ 256"
      using unsigned_less [of "timestamp e"] by simp
    with bnd have rep: "unat (lastSessionTime s) + unat BREAK_DURATION < 2 ^ 256"
      by linarith
    show ?thesis using act bnd args rep by (simp add: fst_start boundary_le)
  qed
  have frame: "lastSessionTime (snd (exec e c s)) = lastSessionTime s"
    if "\<not> (is_start c \<and> is_success (fst (exec e c s)))"
    using that by (auto simp: step_last)
  have recent: "lastSessionTime (run (constructor e0) txs) = last (start_times (constructor e0) txs)"
    if "start_times (constructor e0) txs \<noteq> []"
    using that by (simp add: last_start_run)
  have sp: "spaced (start_times (constructor e0) txs)"
    by (rule spaced_tl [OF spaced_run])
  show ?thesis
    using before [of s] after [of s] start_success_state [of e ty sev s] frame sp
      recent before [of "run (constructor e0) txs"] after [of "run (constructor e0) txs"]
    by (simp add: break_duration)
qed

theorem cooldown_gate_witness:
  "isActive (patientProfiles registered (sender (at patient1 2799)))
   \<and> unat (lastSessionTime registered) + unat BREAK_DURATION < 2 ^ 256
   \<and> unat (timestamp (at patient1 2799)) < unat (lastSessionTime registered) + unat BREAK_DURATION
   \<and> exec (at patient1 2799) (StartCounselingSession 1 8) registered
       = (Reverted No_session_slots_available, registered)
   \<and> isActive (patientProfiles registered (sender (at patient1 2800)))
   \<and> unat (lastSessionTime registered) + unat BREAK_DURATION \<le> unat (timestamp (at patient1 2800))
   \<and> currentSessionId registered \<noteq> 65535
   \<and> fst (exec (at patient1 2800) (StartCounselingSession 1 8) registered)
       = Success [SessionStarted 1 patient1 2800]
   \<and> is_success (fst (exec (at patient1 2800) (StartCounselingSession 1 8) registered))
   \<and> lastSessionTime (snd (exec (at patient1 2800) (StartCounselingSession 1 8) registered)) = 2800
   \<and> \<not> (is_start (UpdateMentalHealthLevels 6 5 7) \<and>
         is_success (fst (exec (at patient1 2800) (UpdateMentalHealthLevels 6 5 7) registered)))
   \<and> lastSessionTime (snd (exec (at patient1 2800) (UpdateMentalHealthLevels 6 5 7) registered))
       = lastSessionTime registered
   \<and> start_times (constructor (at counselor0 1000)) one_session \<noteq> []
   \<and> lastSessionTime (run (constructor (at counselor0 1000)) one_session) = 2800
   \<and> last (start_times (constructor (at counselor0 1000)) one_session) = 2800
   \<and> isActive (patientProfiles (run (constructor (at counselor0 1000)) one_session)
         (sender (at patient1 4599)))
   \<and> unat (timestamp (at patient1 4599))
       < unat (last (start_times (constructor (at counselor0 1000)) one_session))
         + unat BREAK_DURATION
   \<and> exec (at patient1 4599) (StartCounselingSession 2 6)
        (run (constructor (at counselor0 1000)) one_session)
       = (Reverted No_session_slots_available, run (constructor (at counselor0 1000)) one_session)
   \<and> unat (last (start_times (constructor (at counselor0 1000)) one_session))
         + unat BREAK_DURATION \<le> unat (timestamp (at patient1 4600))
   \<and> fst (exec (at patient1 4600) (StartCounselingSession 2 6)
        (run (constructor (at counselor0 1000)) one_session))
       = Success [SessionStarted 2 patient1 4600]"
proof -
  let ?c = "UpdateMentalHealthLevels 6 5 7"
  let ?e0 = "at counselor0 1000"
  let ?H = "run (constructor (at counselor0 1000)) one_session"
  have h1: "isActive (patientProfiles registered (sender (at patient1 2799)))"
    and h2: "isActive (patientProfiles registered (sender (at patient1 2800)))"
    using registered_active by (simp_all add: at_def)
  have h3: "isActive (patientProfiles ?H (sender (at patient1 4599)))"
    and h4: "isActive (patientProfiles ?H (sender (at patient1 4600)))"
    using one_session_facts(4) by (simp_all add: at_def deployed_def)
  note f = one_session_facts [unfolded deployed_def at_def]
  have u: "\<not> (is_start ?c \<and> is_success (fst (exec (at patient1 2800) ?c registered)))"
    by simp
  have A: "exec (at patient1 2799) (StartCounselingSession 1 8) registered
       = (Reverted No_session_slots_available, registered)"
    using cooldown_gate [where s = registered and e = "at patient1 2799" and ty = 1 and sev = 8
        and c = ?c and ?e0.0 = ?e0 and txs = one_session] h1
    by (simp add: registered_fields at_def break_duration)
  note inst = cooldown_gate [where s = registered and e = "at patient1 2800" and ty = 1
        and sev = 8 and c = ?c and ?e0.0 = ?e0 and txs = one_session]
  have B: "fst (exec (at patient1 2800) (StartCounselingSession 1 8) registered)
       = Success [SessionStarted 1 patient1 2800]"
    using inst h2 by (simp add: registered_fields at_def break_duration)
  then have B': "is_success (fst (exec (at patient1 2800) (StartCounselingSession 1 8) registered))"
    by simp
  have C: "lastSessionTime (snd (exec (at patient1 2800) (StartCounselingSession 1 8) registered))
       = 2800"
    using inst B' by (simp add: at_def)
  have D: "lastSessionTime (snd (exec (at patient1 2800) ?c registered))
       = lastSessionTime registered"
    using inst u by blast
  have E: "lastSessionTime ?H = last (start_times (constructor ?e0) one_session)"
    using inst by (simp add: one_session_facts [unfolded deployed_def])
  have F: "exec (at patient1 4599) (StartCounselingSession 2 6) ?H
       = (Reverted No_session_slots_available, ?H)"
    using cooldown_gate [where s = registered and e = "at patient1 4599" and ty = 2 and sev = 6
        and c = ?c and ?e0.0 = ?e0 and txs = one_session] h3
    by (simp add: f at_def break_duration)
  have G: "fst (exec (at patient1 4600) (StartCounselingSession 2 6) ?H)
       = Success [SessionStarted 2 patient1 4600]"
    using cooldown_gate [where s = registered and e = "at patient1 4600" and ty = 2 and sev = 6
        and c = ?c and ?e0.0 = ?e0 and txs = one_session] h4
    by (simp add: f at_def break_duration)
  show ?thesis
    using h1 h2 h3 u A B B' C D E F G
    by (simp add: registered_fields f at_def break_duration)
qed

text \<open>
  C2 as stated fails after the boundary: \<open>patient1\<close>, registered and with valid
  arguments, does not succeed once 65534 sessions have been started, because the
  increment of the \<^verbatim>\<open>uint16\<close> counter panics. It also fails before the boundary on a
  contract deployed at the largest block time, where the sum \<open>lastSessionTime +
  BREAK_DURATION\<close> itself panics.
\<close>

theorem cooldown_gate_counterexample:
  "isActive (patientProfiles fully_booked (sender (at patient1 118000000)))
   \<and> unat (lastSessionTime fully_booked) + unat BREAK_DURATION
         \<le> unat (timestamp (at patient1 118000000))
   \<and> fst (exec (at patient1 118000000) (StartCounselingSession 1 8) fully_booked)
       = Reverted Panic_overflow
   \<and> isActive (patientProfiles deployed_late (sender (at patient1 uint256_max)))
   \<and> unat (timestamp (at patient1 uint256_max))
         < unat (lastSessionTime deployed_late) + unat BREAK_DURATION
   \<and> fst (exec (at patient1 uint256_max) (StartCounselingSession 1 8) deployed_late)
       = Reverted Panic_overflow
   \<and> taxonomy Panic_overflow \<noteq> Some NoSlotAvailable"
  by (simp add: fst_start fully_booked_fields deployed_late_facts at_def BREAK_DURATION_def
      uint256_max_def)

text \<open>
  The case of the test "Should enforce break time between sessions": \<open>patient2\<close>, who has
  not registered, calls \<open>startCounselingSession(2, 7)\<close> during the break. The test
  expects "No session slots available"; the contract answers "Patient not registered",
  because the modifier \<^verbatim>\<open>onlyRegisteredPatient\<close> runs before \<^verbatim>\<open>sessionAvailable\<close>.
\<close>

lemma unregistered_start_in_break:
  "\<not> isActive (patientProfiles registered patient2)
   \<and> unat (timestamp (at patient2 1000)) < unat (lastSessionTime registered) + unat BREAK_DURATION
   \<and> fst (exec (at patient2 1000) (StartCounselingSession 2 7) registered)
       = Reverted Patient_not_registered"
proof -
  have n2: "\<not> isActive (patientProfiles registered patient2)"
    by (simp add: scenario_defs function_defs)
  then show ?thesis
    by (simp add: fst_start registered_fields at_def BREAK_DURATION_def)
qed

subsection \<open>Session ids\<close>

text \<open>
  C6. The counter starts at 1. After any history of calls on the deployed contract, of
  which N calls of \<open>startCounselingSession\<close> succeeded, the ids handed out are
  1, 2, ..., N in this order, without gap or repetition, and the counter holds N + 1.
  From any storage, a history moves the counter up by exactly the number of successful
  starts in it. A successful start announces the current counter as the id, stores the
  new session under that id (active, not completed, with the caller as patient and the
  block time as start time), appends the id to the caller's list and moves the counter up
  by one. After any history, every id handed out still has its session stored under it,
  with the patient and start time of its \<open>SessionStarted\<close> event; the ids handed out are
  exactly the ids under which a session is stored; and the list of each patient holds
  exactly the ids handed out to that patient, in order.
\<close>

theorem session_ids_consecutive:
  "currentSessionId (constructor e0) = 1
   \<and> map unat (assigned_ids (constructor e0) txs)
       = [1 ..< Suc (successful_starts (constructor e0) txs)]
   \<and> distinct (assigned_ids (constructor e0) txs)
   \<and> unat (currentSessionId (run (constructor e0) txs))
       = Suc (successful_starts (constructor e0) txs)
   \<and> unat (currentSessionId (run s txs)) = unat (currentSessionId s) + successful_starts s txs
   \<and> (is_success (fst (exec e (StartCounselingSession ty sev) s)) \<longrightarrow>
        fst (exec e (StartCounselingSession ty sev) s)
          = Success [SessionStarted (currentSessionId s) (sender e) (timestamp e)]
        \<and> getSessionInfo (snd (exec e (StartCounselingSession ty sev) s)) (currentSessionId s)
          = (True, False, timestamp e, 0, sender e)
        \<and> patientSessions (snd (exec e (StartCounselingSession ty sev) s)) (sender e)
          = patientSessions s (sender e) @ [currentSessionId s]
        \<and> unat (currentSessionId (snd (exec e (StartCounselingSession ty sev) s)))
          = Suc (unat (currentSessionId s)))
   \<and> (SessionStarted i p t \<in> set (event_log (constructor e0) txs) \<longrightarrow>
        stored_session (run (constructor e0) txs) i p t)
   \<and> (i \<in> set (assigned_ids (constructor e0) txs)) =
       (sessionActive (sessions (run (constructor e0) txs) i) \<or>
        sessionCompleted (sessions (run (constructor e0) txs) i))
   \<and> patientSessions (run (constructor e0) txs) a
       = sessions_started_by a (constructor e0) txs"
proof -
  have c1: "unat (currentSessionId (constructor e0)) = 1"
    by (simp add: constructor_def)
  from ids_from [of "constructor e0" txs]
  have ids: "map unat (assigned_ids (constructor e0) txs)
               = [1 ..< Suc (successful_starts (constructor e0) txs)]"
    and cur: "unat (currentSessionId (run (constructor e0) txs))
               = Suc (successful_starts (constructor e0) txs)"
    by (simp_all only: c1 plus_1_eq_Suc)
  have "distinct (map unat (assigned_ids (constructor e0) txs))"
    unfolding ids by simp
  then have d: "distinct (assigned_ids (constructor e0) txs)"
    by (simp add: distinct_map)
  have step: "fst (exec e (StartCounselingSession ty sev) s)
          = Success [SessionStarted (currentSessionId s) (sender e) (timestamp e)]
        \<and> getSessionInfo (snd (exec e (StartCounselingSession ty sev) s)) (currentSessionId s)
          = (True, False, timestamp e, 0, sender e)
        \<and> patientSessions (snd (exec e (StartCounselingSession ty sev) s)) (sender e)
          = patientSessions s (sender e) @ [currentSessionId s]
        \<and> unat (currentSessionId (snd (exec e (StartCounselingSession ty sev) s)))
          = Suc (unat (currentSessionId s))"
    if ok: "is_success (fst (exec e (StartCounselingSession ty sev) s))"
  proof -
    have ev: "fst (exec e (StartCounselingSession ty sev) s)
          = Success [SessionStarted (currentSessionId s) (sender e) (timestamp e)]"
      using ok by (auto simp: fst_start split: if_splits)
    have info: "getSessionInfo (snd (exec e (StartCounselingSession ty sev) s))
          (currentSessionId s) = (True, False, timestamp e, 0, sender e)"
      using start_stores [OF ok] by (simp add: getSessionInfo_def)
    have ps: "patientSessions (snd (exec e (StartCounselingSession ty sev) s)) (sender e)
          = patientSessions s (sender e) @ [currentSessionId s]"
      using ok by (simp add: step_patientSessions)
    have "currentSessionId s \<noteq> 65535"
      using step_not_full [of "StartCounselingSession ty sev" e s] ok by simp
    then have nx: "unat (currentSessionId (snd (exec e (StartCounselingSession ty sev) s)))
          = Suc (unat (currentSessionId s))"
      using ok by (simp add: step_counter unat_succ_id)
    show ?thesis using ev info ps nx by simp
  qed
  have blank0: "unused_ids_blank (constructor e0)"
    by (rule blank_constructor)
  have st: "stored_session (run (constructor e0) txs) i p t"
    if "SessionStarted i p t \<in> set (event_log (constructor e0) txs)"
    using started_stored_run [OF blank0 that] .
  have ex: "(i \<in> set (assigned_ids (constructor e0) txs)) =
       (sessionActive (sessions (run (constructor e0) txs) i) \<or>
        sessionCompleted (sessions (run (constructor e0) txs) i))"
  proof
    assume "i \<in> set (assigned_ids (constructor e0) txs)"
    then obtain p' t' where "SessionStarted i p' t' \<in> set (event_log (constructor e0) txs)"
      by (auto simp: assigned_ids_events)
    from started_stored_run [OF blank0 this]
    show "sessionActive (sessions (run (constructor e0) txs) i) \<or>
        sessionCompleted (sessions (run (constructor e0) txs) i)"
      by (auto simp: stored_session_def)
  next
    assume f: "sessionActive (sessions (run (constructor e0) txs) i) \<or>
        sessionCompleted (sessions (run (constructor e0) txs) i)"
    show "i \<in> set (assigned_ids (constructor e0) txs)"
    proof (rule ccontr)
      assume "i \<notin> set (assigned_ids (constructor e0) txs)"
      from never_assigned_blank [OF this] f show False
        by (simp add: zero_session_def)
    qed
  qed
  have ps: "patientSessions (run (constructor e0) txs) a
       = sessions_started_by a (constructor e0) txs"
    by (simp add: patientSessions_run constructor_def)
  show ?thesis
    using ids d cur ids_from [of s txs] step st ex ps by (simp add: constructor_def)
qed

theorem session_ids_consecutive_witness:
  "map unat (assigned_ids (constructor (at counselor0 1000)) two_sessions) = [1, 2]
   \<and> is_success (fst (exec (at patient1 2800) (StartCounselingSession 1 8) registered))
   \<and> getSessionInfo (snd (exec (at patient1 2800) (StartCounselingSession 1 8) registered)) 1
       = (True, False, 2800, 0, patient1)
   \<and> SessionStarted 2 patient1 4600
       \<in> set (event_log (constructor (at counselor0 1000)) two_sessions)
   \<and> stored_session (run (constructor (at counselor0 1000)) two_sessions) 2 patient1 4600
   \<and> patientSessions (run (constructor (at counselor0 1000)) two_sessions) patient1 = [1, 2]"
proof -
  note f = two_sessions_facts [unfolded deployed_def]
  note inst = session_ids_consecutive [where ?e0.0 = "at counselor0 1000"
      and txs = two_sessions and s = registered and e = "at patient1 2800" and ty = 1
      and sev = 8 and i = 2 and p = patient1 and t = 4600 and a = patient1]
  have ok: "is_success (fst (exec (at patient1 2800) (StartCounselingSession 1 8) registered))"
    using registered_active
    by (simp add: fst_start registered_fields at_def BREAK_DURATION_def)
  have ev: "SessionStarted 2 patient1 4600
       \<in> set (event_log (constructor (at counselor0 1000)) two_sessions)"
    by (simp add: f)
  have A: "map unat (assigned_ids (constructor (at counselor0 1000)) two_sessions) = [1, 2]"
    using inst by (simp add: f upt_rec)
  have B: "getSessionInfo (snd (exec (at patient1 2800) (StartCounselingSession 1 8) registered)) 1
       = (True, False, 2800, 0, patient1)"
    using inst ok by (simp add: registered_fields at_def)
  have C: "stored_session (run (constructor (at counselor0 1000)) two_sessions) 2 patient1 4600"
    using inst ev by blast
  have D: "patientSessions (run (constructor (at counselor0 1000)) two_sessions) patient1 = [1, 2]"
    using inst by (simp add: sessions_started_by_def f)
  show ?thesis using ok ev A B C D by simp
qed

subsection \<open>Range checks\<close>




subsection \<open>Completing a session that was never started\<close>

text \<open>
  C9, amended. After any history on the deployed contract, \<open>completeSession\<close> on the id 0
  or on an id from the counter upwards, with a score in [0,10], fails and changes
  nothing. The contract has no check that the session exists: the session read is the
  zero session, whose patient is the zero address, so a caller other than the counselor
  (and other than the zero address) fails with "Not authorized", and the counselor fails
  with "Session not active".
\<close>

theorem complete_unused_id_rejected:
  assumes "i = 0 \<or> currentSessionId (run (constructor e0) txs) \<le> i"
    and "sc \<le> 10"
  shows "exec e (CompleteSession i sc) (run (constructor e0) txs) =
           (Reverted (if sender e = sender e0 \<or> sender e = 0 then Session_not_active
                      else Not_authorized), run (constructor e0) txs)
         \<and> taxonomy Session_not_active = Some SessionNotActive
         \<and> taxonomy Not_authorized = Some Unauthorized"
proof -
  let ?s = "run (constructor e0) txs"
  have "unused_ids_blank ?s"
    by (rule blank_run [OF blank_constructor])
  with assms(1) have z: "sessions ?s i = zero_session"
    unfolding unused_ids_blank_def by blast
  have c: "counselor ?s = sender e0"
    by (simp add: run_counselor constructor_def)
  have "fst (exec e (CompleteSession i sc) ?s) =
      Reverted (if sender e = sender e0 \<or> sender e = 0 then Session_not_active
                else Not_authorized)"
    using assms(2) by (auto simp: fst_complete z c zero_session_def)
  then show ?thesis
    by (simp add: exec_eq_reverted)
qed

theorem complete_unused_id_rejected_witness:
  "((1::uint16) = 0 \<or> currentSessionId (run (constructor (at counselor0 1000))
        [(at patient1 1000, RegisterPatient 7 5 6)]) \<le> 1)
   \<and> (7::uint8) \<le> 10
   \<and> exec (at patient1 2800) (CompleteSession 1 7)
        (run (constructor (at counselor0 1000)) [(at patient1 1000, RegisterPatient 7 5 6)])
       = (Reverted Not_authorized,
          run (constructor (at counselor0 1000)) [(at patient1 1000, RegisterPatient 7 5 6)])"
proof -
  have r: "run (constructor (at counselor0 1000)) [(at patient1 1000, RegisterPatient 7 5 6)]
             = registered"
    by (simp add: registered_def deployed_def)
  have h: "(1::uint16) = 0 \<or> currentSessionId (run (constructor (at counselor0 1000))
        [(at patient1 1000, RegisterPatient 7 5 6)]) \<le> 1"
    unfolding r by (simp add: registered_fields)
  have sc: "(7::uint8) \<le> 10" by simp
  from complete_unused_id_rejected [OF h sc, of "at patient1 2800"] h
  show ?thesis
    by (simp add: at_def patient1_def counselor0_def)
qed

text \<open>
  C9 as stated fails: on the contract just deployed no session exists, and
  \<open>completeSession(1, 7)\<close> fails with "Not authorized" for \<open>patient1\<close> and with
  "Session not active" for the counselor. No call of the contract gives a message that
  stands for SessionNotFound.
\<close>

theorem complete_unused_id_counterexample:
  "currentSessionId deployed \<le> 1
   \<and> fst (exec (at patient1 1000) (CompleteSession 1 7) deployed) = Reverted Not_authorized
   \<and> fst (exec (at counselor0 1000) (CompleteSession 1 7) deployed) = Reverted Session_not_active
   \<and> taxonomy Not_authorized \<noteq> Some SessionNotFound
   \<and> taxonomy Session_not_active \<noteq> Some SessionNotFound"
  by (simp add: fst_complete deployed_fields zero_session_def at_def patient1_def counselor0_def)

subsection \<open>Queries on unknown keys\<close>

text \<open>
  C10, amended. After any history on the deployed contract: \<open>getSessionInfo\<close> on an id
  that was never handed out returns (false, false, 0, 0, zero address);
  \<open>isPatientRegistered\<close> on an address that never registered returns false;
  \<open>getTherapyPlanStatus\<close> on an address that never received a plan returns (false, 0);
  \<open>getPatientSessionCount\<close> returns the number of sessions the address started, 0 for
  an address without sessions; the
  subtraction in \<open>getSessionStats\<close> never underflows; the getters of the three struct
  mappings return the zero struct on such keys. \<open>isSessionTimeAvailable\<close> and
  \<open>getSessionAvailability\<close> return whenever \<open>lastSessionTime + BREAK_DURATION\<close> fits
  \<^verbatim>\<open>uint256\<close>, and panic otherwise. The getter \<^verbatim>\<open>patientSessions(address, uint256)\<close>
  returns the id at an index below the number of sessions of the address and panics at
  any other index, so for an address without sessions it panics at every index.
\<close>

theorem queries_on_unknown_keys:
  "(i \<notin> set (assigned_ids (constructor e0) txs) \<longrightarrow>
      getSessionInfo (run (constructor e0) txs) i = (False, False, 0, 0, 0))
   \<and> (a \<notin> set (registrants (constructor e0) txs) \<longrightarrow>
      isPatientRegistered (run (constructor e0) txs) a = False)
   \<and> (a \<notin> set (planned (constructor e0) txs) \<longrightarrow>
      getTherapyPlanStatus (run (constructor e0) txs) a = (False, 0))
   \<and> getSessionStats (run (constructor e0) txs) =
       Inr (currentSessionId (run (constructor e0) txs),
            ucast (currentSessionId (run (constructor e0) txs) - 1),
            lastSessionTime (run (constructor e0) txs))
   \<and> getPatientSessionCount (run (constructor e0) txs) a
       = length (sessions_started_by a (constructor e0) txs)
   \<and> (sessions_started_by a (constructor e0) txs = [] \<longrightarrow>
      getPatientSessionCount (run (constructor e0) txs) a = 0)
   \<and> (i \<notin> set (assigned_ids (constructor e0) txs) \<longrightarrow>
      sessions (run (constructor e0) txs) i = zero_session)
   \<and> (a \<notin> set (registrants (constructor e0) txs) \<longrightarrow>
      patientProfiles (run (constructor e0) txs) a = zero_profile)
   \<and> (a \<notin> set (planned (constructor e0) txs) \<longrightarrow>
      therapyPlans (run (constructor e0) txs) a = zero_plan)
   \<and> (unat (lastSessionTime s) + unat BREAK_DURATION < 2 ^ 256 \<longrightarrow>
      isSessionTimeAvailable e s = Inr (lastSessionTime s + BREAK_DURATION \<le> timestamp e)
      \<and> getSessionAvailability e s =
          Inr (lastSessionTime s + BREAK_DURATION \<le> timestamp e,
               if lastSessionTime s + BREAK_DURATION \<le> timestamp e then timestamp e
               else lastSessionTime s + BREAK_DURATION,
               timestamp e))
   \<and> (\<not> unat (lastSessionTime s) + unat BREAK_DURATION < 2 ^ 256 \<longrightarrow>
      isSessionTimeAvailable e s = Inl Panic_overflow
      \<and> getSessionAvailability e s = Inl Panic_overflow)
   \<and> patientSessions_at (run (constructor e0) txs) a j =
       (if unat j < length (sessions_started_by a (constructor e0) txs)
        then Inr (sessions_started_by a (constructor e0) txs ! unat j)
        else Inl Panic_out_of_bounds)
   \<and> (sessions_started_by a (constructor e0) txs = [] \<longrightarrow>
      patientSessions_at (run (constructor e0) txs) a j = Inl Panic_out_of_bounds)"
proof -
  let ?H = "run (constructor e0) txs"
  have ses0: "sessions ?H i = zero_session"
    if "i \<notin> set (assigned_ids (constructor e0) txs)"
    using never_assigned_blank [OF that] .
  have ses: "getSessionInfo ?H i = (False, False, 0, 0, 0)"
    if "i \<notin> set (assigned_ids (constructor e0) txs)"
    using ses0 [OF that] by (simp add: getSessionInfo_def zero_session_def)
  have reg0: "patientProfiles ?H a = zero_profile"
    if "a \<notin> set (registrants (constructor e0) txs)"
    using never_registered_zero [OF _ that] by (simp add: constructor_def)
  have reg: "isPatientRegistered ?H a = False"
    if "a \<notin> set (registrants (constructor e0) txs)"
    using reg0 [OF that] by (simp add: isPatientRegistered_def zero_profile_def)
  have pla0: "therapyPlans ?H a = zero_plan"
    if "a \<notin> set (planned (constructor e0) txs)"
    using never_planned_run [OF _ that] by (simp add: constructor_def)
  have pla: "getTherapyPlanStatus ?H a = (False, 0)"
    if "a \<notin> set (planned (constructor e0) txs)"
    using pla0 [OF that] by (simp add: getTherapyPlanStatus_def zero_plan_def)
  have "unused_ids_blank ?H"
    by (rule blank_run [OF blank_constructor])
  then have "\<not> currentSessionId ?H < 1"
    by (simp add: unused_ids_blank_def word_less_nat_alt unat_eq_0)
  then have sta: "getSessionStats ?H =
       Inr (currentSessionId ?H, ucast (currentSessionId ?H - 1), lastSessionTime ?H)"
    by (simp add: getSessionStats_def)
  have ps: "patientSessions ?H a = sessions_started_by a (constructor e0) txs"
    by (simp add: patientSessions_run constructor_def)
  have cnt: "getPatientSessionCount ?H a = length (sessions_started_by a (constructor e0) txs)"
    by (simp add: getPatientSessionCount_def ps)
  have get: "patientSessions_at ?H a j =
       (if unat j < length (sessions_started_by a (constructor e0) txs)
        then Inr (sessions_started_by a (constructor e0) txs ! unat j)
        else Inl Panic_out_of_bounds)"
    by (simp add: patientSessions_at_def ps)
  show ?thesis
    using ses reg pla sta cnt ses0 reg0 pla0 get
      availability_total [of s e] availability_panics [of s e]
    by simp
qed

theorem queries_on_unknown_keys_witness:
  "2 \<notin> set (assigned_ids (constructor (at counselor0 1000)) planned_session)
   \<and> getSessionInfo (run (constructor (at counselor0 1000)) planned_session) 2
       = (False, False, 0, 0, 0)
   \<and> sessions (run (constructor (at counselor0 1000)) planned_session) 2 = zero_session
   \<and> patient2 \<notin> set (registrants (constructor (at counselor0 1000)) planned_session)
   \<and> isPatientRegistered (run (constructor (at counselor0 1000)) planned_session) patient2
       = False
   \<and> patientProfiles (run (constructor (at counselor0 1000)) planned_session) patient2
       = zero_profile
   \<and> patient2 \<notin> set (planned (constructor (at counselor0 1000)) planned_session)
   \<and> getTherapyPlanStatus (run (constructor (at counselor0 1000)) planned_session) patient2
       = (False, 0)
   \<and> therapyPlans (run (constructor (at counselor0 1000)) planned_session) patient2 = zero_plan
   \<and> sessions_started_by patient2 (constructor (at counselor0 1000)) planned_session = []
   \<and> getPatientSessionCount (run (constructor (at counselor0 1000)) planned_session) patient2
       = 0
   \<and> patientSessions_at (run (constructor (at counselor0 1000)) planned_session) patient2 0
       = Inl Panic_out_of_bounds
   \<and> unat (lastSessionTime registered) + unat BREAK_DURATION < 2 ^ 256
   \<and> isSessionTimeAvailable (at patient1 2800) registered = Inr True
   \<and> getSessionAvailability (at patient1 2799) registered = Inr (False, 2800, 2799)
   \<and> \<not> unat (lastSessionTime deployed_late) + unat BREAK_DURATION < 2 ^ 256
   \<and> getSessionAvailability (at patient1 uint256_max) deployed_late = Inl Panic_overflow"
proof -
  let ?s0 = "constructor (at counselor0 1000)"
  note f = planned_session_facts [unfolded deployed_def]
  have h1: "2 \<notin> set (assigned_ids ?s0 planned_session)"
    by (simp add: assigned_ids_def f)
  have h2: "patient2 \<notin> set (registrants ?s0 planned_session)"
    by (simp only: registrants_def f) (simp add: planned_session_def at_def patient1_def patient2_def)
  have h3: "patient2 \<notin> set (planned ?s0 planned_session)"
    by (simp only: planned_def f) (simp add: planned_session_def patient1_def patient2_def)
  have h4: "sessions_started_by patient2 ?s0 planned_session = []"
    by (simp add: sessions_started_by_def f patient1_def patient2_def)
  have h5: "unat (lastSessionTime registered) + unat BREAK_DURATION < 2 ^ 256"
    by (simp add: registered_fields break_duration)
  have h6: "\<not> unat (lastSessionTime deployed_late) + unat BREAK_DURATION < 2 ^ 256"
    by (simp add: deployed_late_facts break_duration uint256_max_def)
  note inst = queries_on_unknown_keys [where i = 2 and ?e0.0 = "at counselor0 1000"
      and txs = planned_session and a = patient2 and j = 0]
  have A: "getSessionInfo (run ?s0 planned_session) 2 = (False, False, 0, 0, 0)"
    "sessions (run ?s0 planned_session) 2 = zero_session"
    using inst [of registered "at patient1 2800"] h1 by blast+
  have B: "isPatientRegistered (run ?s0 planned_session) patient2 = False"
    "patientProfiles (run ?s0 planned_session) patient2 = zero_profile"
    using inst [of registered "at patient1 2800"] h2 by blast+
  have C: "getTherapyPlanStatus (run ?s0 planned_session) patient2 = (False, 0)"
    "therapyPlans (run ?s0 planned_session) patient2 = zero_plan"
    using inst [of registered "at patient1 2800"] h3 by blast+
  have D: "getPatientSessionCount (run ?s0 planned_session) patient2 = 0"
    "patientSessions_at (run ?s0 planned_session) patient2 0 = Inl Panic_out_of_bounds"
    using inst [of registered "at patient1 2800"] h4 by blast+
  have E: "isSessionTimeAvailable (at patient1 2800) registered = Inr True"
    using inst [of registered "at patient1 2800"] h5
    by (simp add: registered_fields at_def BREAK_DURATION_def)
  have F: "getSessionAvailability (at patient1 2799) registered = Inr (False, 2800, 2799)"
    using inst [of registered "at patient1 2799"] h5
    by (simp add: registered_fields at_def BREAK_DURATION_def)
  have G: "getSessionAvailability (at patient1 uint256_max) deployed_late = Inl Panic_overflow"
    using inst [of deployed_late "at patient1 uint256_max"] h6 by blast
  show ?thesis
    using h1 h2 h3 h4 h5 h6 A B C D E F G by simp
qed

text \<open>
  C10 as stated fails: on the contract just deployed \<open>patient1\<close> has no sessions, and the
  getter \<^verbatim>\<open>patientSessions(patient1, 0)\<close> panics; on a contract deployed at the largest
  block time the two availability queries panic.
\<close>

theorem queries_on_unknown_keys_counterexample:
  "patientSessions deployed patient1 = []
   \<and> patientSessions_at deployed patient1 0 = Inl Panic_out_of_bounds
   \<and> isSessionTimeAvailable (at patient1 uint256_max) deployed_late = Inl Panic_overflow
   \<and> getSessionAvailability (at patient1 uint256_max) deployed_late = Inl Panic_overflow"
  by (simp add: patientSessions_at_def isSessionTimeAvailable_def getSessionAvailability_def
      checked_add_def deployed_late_facts uint256_max_def BREAK_DURATION_def scenario_defs)

end
